theory Spec2Isabelle
  imports Complex_Main
begin

section \<open>JavaScript values used by the entry point\<close>

text \<open>
  The entry point \<^verbatim>\<open>packages/cli/src/gemini.tsx\<close> tests several optional strings for
  truthiness (\<^verbatim>\<open>if (stdinData)\<close>, \<^verbatim>\<open>process.env['SANDBOX']\<close>, ...). An optional string
  is \<open>string option\<close> (\<open>None\<close> is \<^verbatim>\<open>undefined\<close> or \<^verbatim>\<open>null\<close>); it is truthy when it
  is defined and not the empty string. An optional boolean is truthy when it is \<open>Some True\<close>.
\<close>

fun truthy :: "string option \<Rightarrow> bool" where
  "truthy None = False"
| "truthy (Some s) = (s \<noteq> [])"

fun truthy_bool :: "bool option \<Rightarrow> bool" where
  "truthy_bool None = False"
| "truthy_bool (Some b) = b"

text \<open>The line feed of the template literals, and the text of a non-negative integer as a
  template literal prints it (decimal digits, most significant first).\<close>

definition LF :: char where
  "LF = CHR 0x0A"

definition digit_char :: "nat \<Rightarrow> char" where
  "digit_char d = ''0123456789'' ! d"

fun show_nat :: "nat \<Rightarrow> string" where
  "show_nat n = (if n < 10 then [digit_char n] else show_nat (n div 10) @ [digit_char (n mod 10)])"

declare show_nat.simps [simp del]

definition show_int :: "int \<Rightarrow> string" where
  "show_int i = (if i < 0 then CHR ''-'' # show_nat (nat (- i)) else show_nat (nat i))"

text \<open>Reading a decimal numeral back, to say which number a flag encodes.\<close>

definition digit_val :: "char \<Rightarrow> nat" where
  "digit_val c = of_char c - 48"

definition read_nat :: "string \<Rightarrow> nat" where
  "read_nat s = foldl (\<lambda>acc c. 10 * acc + digit_val c) 0 s"

section \<open>validateDnsResolutionOrder\<close>

text \<open>
  \<^verbatim>\<open>validateDnsResolutionOrder(order: string | undefined): DnsResolutionOrder\<close>.
  The model returns the lines written with \<^verbatim>\<open>console.warn\<close> and the value returned.
  The function has no \<^verbatim>\<open>throw\<close> and no \<^verbatim>\<open>process.exit\<close>: every path returns.
\<close>

definition defaultValue :: string where
  "defaultValue = ''ipv4first''"

definition dns_warning :: "string \<Rightarrow> string" where
  "dns_warning order =
     ''Invalid value for dnsResolutionOrder in settings: '' @ [CHR 0x22] @ order @ [CHR 0x22] @
     ''. Using default '' @ [CHR 0x22] @ defaultValue @ [CHR 0x22] @ ''.''"

definition validateDnsResolutionOrder :: "string option \<Rightarrow> string list \<times> string" where
  "validateDnsResolutionOrder order =
     (case order of
        None \<Rightarrow> ([], defaultValue)
      | Some v \<Rightarrow>
          if v = ''ipv4first'' \<or> v = ''verbatim'' then ([], v)
          else ([dns_warning v], defaultValue))"

section \<open>getNodeMemoryArgs\<close>

text \<open>
  \<^verbatim>\<open>getNodeMemoryArgs(isDebugMode)\<close> reads \<^verbatim>\<open>os.totalmem()\<close> and
  \<^verbatim>\<open>v8.getHeapStatistics().heap_size_limit\<close> (both whole numbers of bytes) and
  \<^verbatim>\<open>process.env['GEMINI_CLI_NO_RELAUNCH']\<close>; the model takes the three as arguments.
  The quotients are rationals: dividing a whole number of bytes by a power of two and
  multiplying by \<open>0.5\<close> are exact on the doubles of the source (below \<open>2^53\<close>).
  The result is the \<^verbatim>\<open>console.debug\<close> lines and the returned flag list.
  \<^verbatim>\<open>n.toFixed(2)\<close> of a whole number prints it followed by \<^verbatim>\<open>.00\<close>.
\<close>

definition totalMemoryMB :: "nat \<Rightarrow> rat" where
  "totalMemoryMB totalmem = of_nat totalmem / (1024 * 1024)"

definition currentMaxOldSpaceSizeMb :: "nat \<Rightarrow> int" where
  "currentMaxOldSpaceSizeMb heap_limit = \<lfloor>(of_nat heap_limit :: rat) / 1024 / 1024\<rfloor>"

definition targetMaxOldSpaceSizeInMB :: "nat \<Rightarrow> int" where
  "targetMaxOldSpaceSizeInMB totalmem = \<lfloor>totalMemoryMB totalmem * 0.5\<rfloor>"

definition toFixed2 :: "int \<Rightarrow> string" where
  "toFixed2 i = show_int i @ ''.00''"

definition getNodeMemoryArgs ::
  "bool \<Rightarrow> nat \<Rightarrow> nat \<Rightarrow> string option \<Rightarrow> string list \<times> string list" where
  "getNodeMemoryArgs debug totalmem heap_limit env_NO_RELAUNCH =
     (let cur = currentMaxOldSpaceSizeMb heap_limit;
          target = targetMaxOldSpaceSizeInMB totalmem;
          dbg1 = (if debug then [''Current heap size '' @ toFixed2 cur @ '' MB''] else [])
      in if truthy env_NO_RELAUNCH then (dbg1, [])
         else if target > cur then
           (dbg1 @ (if debug
                    then [''Need to relaunch with more memory: '' @ toFixed2 target @ '' MB'']
                    else []),
            [''--max-old-space-size='' @ show_int target])
         else (dbg1, []))"

section \<open>injectStdinIntoArgs\<close>

text \<open>
  \<^verbatim>\<open>Array.prototype.findIndex\<close>: the index of the first element satisfying the
  predicate, \<open>-1\<close> when there is none.
\<close>

fun findIndex :: "('a \<Rightarrow> bool) \<Rightarrow> 'a list \<Rightarrow> int" where
  "findIndex P [] = - 1"
| "findIndex P (x # xs) =
     (if P x then 0 else (let i = findIndex P xs in if i < 0 then - 1 else i + 1))"

definition is_prompt_flag :: "string \<Rightarrow> bool" where
  "is_prompt_flag arg = (arg = ''--prompt'' \<or> arg = ''-p'')"

text \<open>
  \<^verbatim>\<open>injectStdinIntoArgs(args: string[], stdinData?: string): string[]\<close> copies
  \<^verbatim>\<open>args\<close> and works on the copy; the assignment to \<^verbatim>\<open>finalArgs[promptIndex + 1]\<close>
  is guarded by \<^verbatim>\<open>finalArgs.length > promptIndex + 1\<close>, so it is always in range.
\<close>

definition injectStdinIntoArgs :: "string list \<Rightarrow> string option \<Rightarrow> string list" where
  "injectStdinIntoArgs args stdinData =
     (let finalArgs = args in
      case stdinData of
        None \<Rightarrow> finalArgs
      | Some s \<Rightarrow>
          if s \<noteq> [] then
            (let promptIndex = findIndex is_prompt_flag finalArgs in
             if promptIndex > - 1 \<and> int (length finalArgs) > promptIndex + 1 then
               finalArgs[nat (promptIndex + 1) := s @ [LF, LF] @ finalArgs ! nat (promptIndex + 1)]
             else finalArgs @ [''--prompt'', s])
          else finalArgs)"

section \<open>The exit-code relaunch protocol\<close>

text \<open>
  Modelled from the spec: \<^verbatim>\<open>relaunchOnExitCode\<close> of \<^verbatim>\<open>./utils/relaunch.js\<close>, which
  \<^verbatim>\<open>gemini.tsx\<close> imports and whose source is not among the sources embedded here. The spec
  (section 4.4): given a launcher producing a new child each time it is invoked, repeatedly
  spawn, wait for exit and inspect the exit code; if it equals the reserved sentinel, invoke
  the launcher again; any other exit code is propagated as this process's own exit status and
  the loop terminates. There is no retry bound.

  The launcher is an effectful thunk; the model gives it the number of children spawned so
  far, so that \<open>launcher k\<close> is the exit code of the child of the \<open>k\<close>-th invocation
  (counting from 0). The spec does not give the sentinel's value: it is a parameter. The
  result is \<open>Some (spawns, status)\<close> when the loop ends, with the number of children
  spawned and the propagated exit status, and \<open>None\<close> when it runs forever.
\<close>

partial_function (option) relaunch_loop :: "int \<Rightarrow> (nat \<Rightarrow> int) \<Rightarrow> nat \<Rightarrow> (nat \<times> int) option" where
  "relaunch_loop sentinel launcher k =
     (if launcher k = sentinel then relaunch_loop sentinel launcher (Suc k)
      else Some (Suc k, launcher k))"

declare relaunch_loop.simps [code]

text \<open>
  Modelled from the spec: \<^verbatim>\<open>relaunchOnExitCode(launcher)\<close> is the loop of section 4.4
  started with no child spawned yet.
\<close>

definition relaunchOnExitCode :: "int \<Rightarrow> (nat \<Rightarrow> int) \<Rightarrow> (nat \<times> int) option" where
  "relaunchOnExitCode sentinel launcher = relaunch_loop sentinel launcher 0"

text \<open>
  Modelled from the spec: \<^verbatim>\<open>relaunchAppInChildProcess\<close> of \<^verbatim>\<open>./utils/relaunch.js\<close>,
  also imported by \<^verbatim>\<open>gemini.tsx\<close> and not among the sources embedded here. The spec
  (section 4.2): when no sandbox configuration is present, still spawn a plain child copy of
  the current process (same argv, only memory flags applied), driven by the protocol of
  section 4.4. \<open>spawn_child nodeArgs scriptArgs k\<close> is the exit code of the \<open>k\<close>-th
  plain child spawned with these additional arguments.
\<close>

definition relaunchAppInChildProcess ::
  "int \<Rightarrow> (string list \<Rightarrow> string list \<Rightarrow> nat \<Rightarrow> int) \<Rightarrow> string list \<Rightarrow> string list \<Rightarrow> (nat \<times> int) option" where
  "relaunchAppInChildProcess sentinel spawn_child nodeArgs scriptArgs =
     relaunchOnExitCode sentinel (spawn_child nodeArgs scriptArgs)"

section \<open>The process as main sees it\<close>

text \<open>
  \<^verbatim>\<open>main\<close> is a sequence of calls to collaborators, with branches on what they return.
  The model records the calls in order (a trace of events) and how the run of \<^verbatim>\<open>main\<close>
  ends. Each event is named after the call it stands for. \<open>ConsoleError\<close> carries the first
  argument of \<^verbatim>\<open>console.error\<close>. \<open>StartSandbox memoryArgs sandboxArgs\<close> is the call
  \<^verbatim>\<open>relaunchOnExitCode(() => start_sandbox(sandboxConfig, memoryArgs, partialConfig, sandboxArgs))\<close>,
  the entry into the sandbox. \<open>KittyProtocolDetectionComplete\<close> is the completion of
  \<^verbatim>\<open>await kittyProtocolDetectionComplete\<close>.
\<close>

datatype event =
    SetupUnhandledRejectionHandler
  | LoadSettings
  | MigrateDeprecatedSettings
  | CleanupCheckpoints
  | RandomUUID
  | ParseArguments
  | ConsoleError string
  | ConsoleWarn string
  | ConsoleDebug string
  | ConsoleLog string
  | ConsolePatcherPatch
  | RegisterCleanup
  | DnsSetDefaultResultOrder string
  | LoadCustomThemes
  | SetActiveTheme string
  | GetNodeMemoryArgs
  | LoadSandboxConfig
  | LoadPartialCliConfig
  | ValidateAuthMethod string
  | RefreshAuth string
  | ReadStdin
  | StartSandbox "string list" "string list"
  | RelaunchAppInChildProcess "string list" "string list"
  | LoadExtensions
  | LoadCliConfig
  | SetRawMode
  | ProcessOn string
  | DetectAndEnableKittyProtocol
  | SetMaxSizedBoxDebugging
  | InitializeApp
  | GetOauthClient
  | RunZedIntegration
  | GetStartupWarnings
  | GetUserStartupWarnings
  | KittyProtocolDetectionComplete
  | StartInteractiveUI
  | ConfigInitialize
  | LogUserPrompt string
  | ValidateNonInteractiveAuth
  | RunNonInteractive string
  | RunExitCleanup

text \<open>
  How the run of \<^verbatim>\<open>main\<close> ends: \<^verbatim>\<open>process.exit(code)\<close>, a return to the event loop,
  or an \<^verbatim>\<open>await\<close> that never completes.
\<close>

datatype outcome = Exit int | Returned | Hang

text \<open>
  What an awaited helper of \<^verbatim>\<open>./utils/relaunch.js\<close> does to the caller: it returns, it
  ends the process itself with an exit status, or it never completes.
\<close>

datatype call_result = Returns | Exits int | Never

definition protocol_result :: "(nat \<times> int) option \<Rightarrow> call_result" where
  "protocol_result r = (case r of Some (spawns, status) \<Rightarrow> Exits status | None \<Rightarrow> Never)"

text \<open>
  Modelled from the spec: the type \<^verbatim>\<open>SandboxConfig\<close> is declared outside
  \<^verbatim>\<open>gemini.tsx\<close>; the spec (section 3) gives it a kind and an image or profile reference.
\<close>

record SandboxConfig =
  kind :: string
  image :: string

text \<open>
  Everything \<^verbatim>\<open>main\<close> reads: the process state, the merged settings, the parsed
  arguments, and what each collaborator returns when called. Collaborators called outside
  the \<^verbatim>\<open>try\<close> block are taken to return normally.
  \<^item> \<open>process_argv\<close>, \<open>stdin_isTTY\<close>, \<open>stdin_isRaw\<close>: \<^verbatim>\<open>process.argv\<close>,
    \<^verbatim>\<open>process.stdin.isTTY\<close>, \<^verbatim>\<open>process.stdin.isRaw\<close>; \<open>readStdin\<close>: the text
    \<^verbatim>\<open>readStdin()\<close> resolves to;
  \<^item> \<open>env_SANDBOX\<close>, \<open>env_GEMINI_CLI_NO_RELAUNCH\<close>: the two environment variables;
    \<open>os_totalmem\<close>, \<open>v8_heap_size_limit\<close>: \<^verbatim>\<open>os.totalmem()\<close> and
    \<^verbatim>\<open>v8.getHeapStatistics().heap_size_limit\<close>, in bytes;
  \<^item> \<open>dnsResolutionOrder\<close>, \<open>autoConfigureMemory\<close> (under \<^verbatim>\<open>advanced\<close>),
    \<open>ui_theme\<close>, \<open>auth_selectedType\<close>, \<open>auth_useExternal\<close> (under
    \<^verbatim>\<open>security.auth\<close>): fields of \<^verbatim>\<open>settings.merged\<close>, \<open>None\<close> when undefined;
  \<^item> \<open>argv_promptInteractive\<close>: \<^verbatim>\<open>argv.promptInteractive\<close>; \<open>cli_isDebugMode\<close>:
    \<^verbatim>\<open>cliConfig.isDebugMode(argv)\<close>;
  \<^item> \<open>setActiveTheme\<close>, \<open>loadSandboxConfig\<close>, \<open>validateAuthMethod\<close>: what these
    calls return; \<open>refreshAuth\<close>: the reason \<^verbatim>\<open>partialConfig.refreshAuth\<close> rejects with,
    \<open>None\<close> when it resolves; \<open>start_sandbox k\<close>: the exit code the \<open>k\<close>-th call of
    \<^verbatim>\<open>start_sandbox\<close> resolves to;
  \<^item> \<open>getListExtensions\<close>, \<open>isInteractive\<close>, \<open>isBrowserLaunchSuppressed\<close>,
    \<open>getExperimentalZedIntegration\<close>, \<open>getQuestion\<close>, \<open>getDebugMode\<close>: the methods of
    the loaded \<^verbatim>\<open>config\<close>; \<open>extension_names\<close>: the names of the loaded extensions;
  \<^item> \<open>detectAndEnableKittyProtocol\<close>: what the detection resolves to, \<open>None\<close> when it
    never resolves; \<open>LOGIN_WITH_GOOGLE\<close>: the constant \<^verbatim>\<open>AuthType.LOGIN_WITH_GOOGLE\<close>.
\<close>

record world =
  process_argv :: "string list"
  stdin_isTTY :: bool
  stdin_isRaw :: bool
  readStdin :: string
  env_SANDBOX :: "string option"
  env_GEMINI_CLI_NO_RELAUNCH :: "string option"
  os_totalmem :: nat
  v8_heap_size_limit :: nat
  dnsResolutionOrder :: "string option"
  autoConfigureMemory :: "bool option"
  ui_theme :: "string option"
  auth_selectedType :: "string option"
  auth_useExternal :: "bool option"
  argv_promptInteractive :: "string option"
  cli_isDebugMode :: bool
  setActiveTheme :: bool
  loadSandboxConfig :: "SandboxConfig option"
  validateAuthMethod :: "string option"
  refreshAuth :: "string option"
  start_sandbox :: "nat \<Rightarrow> int"
  getListExtensions :: bool
  extension_names :: "string list"
  isInteractive :: bool
  isBrowserLaunchSuppressed :: bool
  getExperimentalZedIntegration :: bool
  getQuestion :: string
  getDebugMode :: bool
  detectAndEnableKittyProtocol :: "bool option"
  LOGIN_WITH_GOOGLE :: string

text \<open>
  A stage of \<^verbatim>\<open>main\<close> yields its events and, when it ends the run, the outcome.
  \<open>andThen\<close> runs the second stage only if the first did not end the run.
\<close>

type_synonym run = "event list \<times> outcome option"

definition cont :: "event list \<Rightarrow> run" where
  "cont es = (es, None)"

definition stop :: "event list \<Rightarrow> outcome \<Rightarrow> run" where
  "stop es out = (es, Some out)"

definition andThen :: "run \<Rightarrow> run \<Rightarrow> run" where
  "andThen r k = (case snd r of None \<Rightarrow> (fst r @ fst k, snd k) | Some out \<Rightarrow> r)"

section \<open>main\<close>

subsection \<open>Lines 242 to 258: loading, argument parsing and the flag guard\<close>

definition promptInteractive_message :: string where
  "promptInteractive_message =
     ''Error: The --prompt-interactive flag cannot be used when input is piped from stdin.''"

definition flag_guard :: "world \<Rightarrow> run" where
  "flag_guard w =
     andThen
       (cont [SetupUnhandledRejectionHandler, LoadSettings, MigrateDeprecatedSettings,
              CleanupCheckpoints, RandomUUID, ParseArguments])
       (if truthy (argv_promptInteractive w) \<and> \<not> stdin_isTTY w
        then stop [ConsoleError promptInteractive_message] (Exit 1)
        else cont [])"

subsection \<open>Lines 260 to 284: console patch, DNS order, themes\<close>

definition theme_warning :: "string \<Rightarrow> string" where
  "theme_warning t = ''Warning: Theme '' @ [CHR 0x22] @ t @ [CHR 0x22] @ '' not found.''"

definition load_themes :: "world \<Rightarrow> event list" where
  "load_themes w =
     LoadCustomThemes #
     (case ui_theme w of
        None \<Rightarrow> []
      | Some t \<Rightarrow>
          if t \<noteq> [] then
            SetActiveTheme t # (if \<not> setActiveTheme w then [ConsoleWarn (theme_warning t)] else [])
          else [])"

definition configure :: "world \<Rightarrow> run" where
  "configure w =
     cont ([ConsolePatcherPatch, RegisterCleanup] @
           map ConsoleWarn (fst (validateDnsResolutionOrder (dnsResolutionOrder w))) @
           [DnsSetDefaultResultOrder (snd (validateDnsResolutionOrder (dnsResolutionOrder w)))] @
           load_themes w)"

subsection \<open>Lines 289 to 374: the relaunch decision\<close>

text \<open>
  \<^verbatim>\<open>memoryArgs = settings.merged.advanced?.autoConfigureMemory ? getNodeMemoryArgs(isDebugMode) : []\<close>:
  the value, and the events of evaluating it.
\<close>

definition memoryArgs :: "world \<Rightarrow> string list" where
  "memoryArgs w =
     (if truthy_bool (autoConfigureMemory w)
      then snd (getNodeMemoryArgs (cli_isDebugMode w) (os_totalmem w) (v8_heap_size_limit w)
                  (env_GEMINI_CLI_NO_RELAUNCH w))
      else [])"

definition memoryArgs_events :: "world \<Rightarrow> event list" where
  "memoryArgs_events w =
     (if truthy_bool (autoConfigureMemory w)
      then GetNodeMemoryArgs #
           map ConsoleDebug
             (fst (getNodeMemoryArgs (cli_isDebugMode w) (os_totalmem w) (v8_heap_size_limit w)
                     (env_GEMINI_CLI_NO_RELAUNCH w)))
      else [])"

text \<open>
  Lines 309 to 330. \<open>validateAuthMethod w\<close> is the error string the validator returns
  (\<open>None\<close> for \<^verbatim>\<open>null\<close>); a truthy one is thrown. \<open>refreshAuth w\<close> is the reason the
  refresh rejects with (\<open>None\<close> when it resolves). Both land in the \<^verbatim>\<open>catch\<close>.
\<close>

definition auth_error_message :: string where
  "auth_error_message = ''Error authenticating:''"

definition authenticate :: "world \<Rightarrow> run" where
  "authenticate w =
     (case auth_selectedType w of
        None \<Rightarrow> cont []
      | Some t \<Rightarrow>
          if t \<noteq> [] \<and> \<not> truthy_bool (auth_useExternal w) then
            andThen (cont [ValidateAuthMethod t])
              (if truthy (validateAuthMethod w)
               then stop [ConsoleError auth_error_message] (Exit 1)
               else andThen (cont [RefreshAuth t])
                      (case refreshAuth w of
                         Some reason \<Rightarrow> stop [ConsoleError auth_error_message] (Exit 1)
                       | None \<Rightarrow> cont []))
          else cont [])"

text \<open>
  The condition under which that block ends in its \<^verbatim>\<open>catch\<close>: a method is selected and
  not delegated externally, and the validator returns an error or the refresh rejects.
\<close>

definition auth_refused :: "world \<Rightarrow> bool" where
  "auth_refused w =
     (truthy (auth_selectedType w) \<and> \<not> truthy_bool (auth_useExternal w) \<and>
      (truthy (validateAuthMethod w) \<or> refreshAuth w \<noteq> None))"

text \<open>Lines 331 to 367.\<close>

definition stdinData :: "world \<Rightarrow> string" where
  "stdinData w = (if \<not> stdin_isTTY w then readStdin w else [])"

definition sandboxArgs :: "world \<Rightarrow> string list" where
  "sandboxArgs w = injectStdinIntoArgs (process_argv w) (Some (stdinData w))"

definition enter_sandbox :: "((nat \<Rightarrow> int) \<Rightarrow> call_result) \<Rightarrow> world \<Rightarrow> run" where
  "enter_sandbox relaunch w =
     andThen
       (cont ((if \<not> stdin_isTTY w then [ReadStdin] else []) @
              [StartSandbox (memoryArgs w) (sandboxArgs w)]))
       (case relaunch (start_sandbox w) of
          Returns \<Rightarrow> stop [] (Exit 0)
        | Exits status \<Rightarrow> stop [] (Exit status)
        | Never \<Rightarrow> stop [] Hang)"

text \<open>
  The two helpers of \<^verbatim>\<open>./utils/relaunch.js\<close> are parameters of the model of
  \<^verbatim>\<open>main\<close>: \<open>relaunch\<close> for \<^verbatim>\<open>relaunchOnExitCode\<close> (given the launcher) and
  \<open>relaunchApp\<close> for \<^verbatim>\<open>relaunchAppInChildProcess\<close> (given its two argument lists).
  After the call in the sandbox branch comes \<^verbatim>\<open>process.exit(0)\<close>; after the call in the
  other branch comes nothing, and control reaches the block of line 381.
\<close>

definition relaunch_stage ::
  "((nat \<Rightarrow> int) \<Rightarrow> call_result) \<Rightarrow> (string list \<Rightarrow> string list \<Rightarrow> call_result) \<Rightarrow> world \<Rightarrow> run" where
  "relaunch_stage relaunch relaunchApp w =
     (if \<not> truthy (env_SANDBOX w) then
        andThen (cont (memoryArgs_events w @ [LoadSandboxConfig]))
          (case loadSandboxConfig w of
             Some sandboxConfig \<Rightarrow>
               andThen (cont [LoadPartialCliConfig])
                 (andThen (authenticate w) (enter_sandbox relaunch w))
           | None \<Rightarrow>
               andThen (cont [RelaunchAppInChildProcess (memoryArgs w) []])
                 (case relaunchApp (memoryArgs w) [] of
                    Returns \<Rightarrow> cont []
                  | Exits status \<Rightarrow> stop [] (Exit status)
                  | Never \<Rightarrow> stop [] Hang))
      else cont [])"

definition pre_dispatch ::
  "((nat \<Rightarrow> int) \<Rightarrow> call_result) \<Rightarrow> (string list \<Rightarrow> string list \<Rightarrow> call_result) \<Rightarrow> world \<Rightarrow> run" where
  "pre_dispatch relaunch relaunchApp w =
     andThen (flag_guard w) (andThen (configure w) (relaunch_stage relaunch relaunchApp w))"

subsection \<open>Lines 381 to 518: mode dispatch\<close>

definition load_config :: "world \<Rightarrow> run" where
  "load_config w =
     andThen (cont [LoadExtensions, LoadCliConfig])
       (if getListExtensions w
        then stop (ConsoleLog ''Installed extensions:'' #
                   map (\<lambda>name. ConsoleLog (''- '' @ name)) (extension_names w)) (Exit 0)
        else cont [])"

definition kitty_started :: "world \<Rightarrow> bool" where
  "kitty_started w = (isInteractive w \<and> \<not> stdin_isRaw w \<and> stdin_isTTY w)"

definition raw_mode :: "world \<Rightarrow> run" where
  "raw_mode w =
     (if kitty_started w
      then cont [SetRawMode, ProcessOn ''SIGTERM'', ProcessOn ''SIGINT'', DetectAndEnableKittyProtocol]
      else cont [])"

definition initialize :: "world \<Rightarrow> run" where
  "initialize w =
     cont ([SetMaxSizedBoxDebugging, InitializeApp] @
           (if auth_selectedType w = Some (LOGIN_WITH_GOOGLE w) \<and> isBrowserLaunchSuppressed w
            then [GetOauthClient] else []))"

definition zed :: "world \<Rightarrow> run" where
  "zed w = (if getExperimentalZedIntegration w then stop [RunZedIntegration] Returned else cont [])"

definition startupWarnings :: "world \<Rightarrow> run" where
  "startupWarnings w = cont [GetStartupWarnings, GetUserStartupWarnings]"

text \<open>
  Lines 458 to 470. \<open>detectAndEnableKittyProtocol w\<close> is what the detection resolves to,
  \<open>None\<close> when it never resolves. When the detection was not started the awaited value is
  \<^verbatim>\<open>undefined\<close> and the \<^verbatim>\<open>await\<close> completes at once.
\<close>

definition interactive :: "world \<Rightarrow> run" where
  "interactive w =
     (if isInteractive w then
        (if kitty_started w \<and> detectAndEnableKittyProtocol w = None then stop [] Hang
         else stop [KittyProtocolDetectionComplete, StartInteractiveUI] Returned)
      else cont [])"

text \<open>Lines 472 to 517.\<close>

definition no_input_message :: string where
  "no_input_message =
     ''No input provided via stdin. Input can be provided by piping data into gemini or using the --prompt option.''"

definition merged_input :: "world \<Rightarrow> string" where
  "merged_input w =
     (if \<not> stdin_isTTY w then
        (if readStdin w \<noteq> [] then readStdin w @ [LF, LF] @ getQuestion w else getQuestion w)
      else getQuestion w)"

definition non_interactive :: "world \<Rightarrow> run" where
  "non_interactive w =
     andThen (cont (ConfigInitialize # (if \<not> stdin_isTTY w then [ReadStdin] else [])))
       (if merged_input w = [] then stop [ConsoleError no_input_message] (Exit 1)
        else stop ([LogUserPrompt (merged_input w), ValidateNonInteractiveAuth] @
                   (if getDebugMode w then [ConsoleLog ''Session ID: %s''] else []) @
                   [RunNonInteractive (merged_input w), RunExitCleanup]) (Exit 0))"

definition dispatch :: "world \<Rightarrow> run" where
  "dispatch w =
     andThen (load_config w)
       (andThen (raw_mode w)
          (andThen (initialize w)
             (andThen (zed w)
                (andThen (startupWarnings w)
                   (andThen (interactive w) (non_interactive w))))))"

subsection \<open>The whole of main\<close>

definition finish :: "run \<Rightarrow> event list \<times> outcome" where
  "finish r = (fst r, case snd r of Some out \<Rightarrow> out | None \<Rightarrow> Returned)"

definition main ::
  "((nat \<Rightarrow> int) \<Rightarrow> call_result) \<Rightarrow> (string list \<Rightarrow> string list \<Rightarrow> call_result) \<Rightarrow> world \<Rightarrow>
   event list \<times> outcome" where
  "main relaunch relaunchApp w =
     finish (andThen (pre_dispatch relaunch relaunchApp w) (dispatch w))"

text \<open>
  \<^verbatim>\<open>main\<close> with the helpers as the spec describes them: \<open>sentinel\<close> is the reserved exit
  code, \<open>spawn_child\<close> gives the exit codes of the plain children.
\<close>

definition main_with_protocol ::
  "int \<Rightarrow> (string list \<Rightarrow> string list \<Rightarrow> nat \<Rightarrow> int) \<Rightarrow> world \<Rightarrow> event list \<times> outcome" where
  "main_with_protocol sentinel spawn_child w =
     main (\<lambda>launcher. protocol_result (relaunchOnExitCode sentinel launcher))
          (\<lambda>nodeArgs scriptArgs.
             protocol_result (relaunchAppInChildProcess sentinel spawn_child nodeArgs scriptArgs))
          w"

subsection \<open>Reading traces\<close>

text \<open>
  \<open>precedes P Q tr\<close>: every event of \<open>tr\<close> satisfying \<open>Q\<close> comes after an event
  satisfying \<open>P\<close>.
\<close>

fun precedes :: "('a \<Rightarrow> bool) \<Rightarrow> ('a \<Rightarrow> bool) \<Rightarrow> 'a list \<Rightarrow> bool" where
  "precedes P Q [] = True"
| "precedes P Q (x # xs) = (\<not> Q x \<and> (P x \<or> precedes P Q xs))"

text \<open>The events that only the block of line 381 (mode dispatch) can produce.\<close>

fun dispatch_event :: "event \<Rightarrow> bool" where
  "dispatch_event LoadExtensions = True"
| "dispatch_event LoadCliConfig = True"
| "dispatch_event (ConsoleLog s) = True"
| "dispatch_event SetRawMode = True"
| "dispatch_event (ProcessOn s) = True"
| "dispatch_event DetectAndEnableKittyProtocol = True"
| "dispatch_event SetMaxSizedBoxDebugging = True"
| "dispatch_event InitializeApp = True"
| "dispatch_event GetOauthClient = True"
| "dispatch_event RunZedIntegration = True"
| "dispatch_event GetStartupWarnings = True"
| "dispatch_event GetUserStartupWarnings = True"
| "dispatch_event KittyProtocolDetectionComplete = True"
| "dispatch_event StartInteractiveUI = True"
| "dispatch_event ConfigInitialize = True"
| "dispatch_event (LogUserPrompt s) = True"
| "dispatch_event ValidateNonInteractiveAuth = True"
| "dispatch_event (RunNonInteractive s) = True"
| "dispatch_event RunExitCleanup = True"
| "dispatch_event e = False"

text \<open>The events of the stages before the relaunch decision (lines 242 to 284), and the
  events of the relaunch decision (lines 289 to 374).\<close>

fun startup_event :: "event \<Rightarrow> bool" where
  "startup_event SetupUnhandledRejectionHandler = True"
| "startup_event LoadSettings = True"
| "startup_event MigrateDeprecatedSettings = True"
| "startup_event CleanupCheckpoints = True"
| "startup_event RandomUUID = True"
| "startup_event ParseArguments = True"
| "startup_event (ConsoleError s) = True"
| "startup_event ConsolePatcherPatch = True"
| "startup_event RegisterCleanup = True"
| "startup_event (ConsoleWarn s) = True"
| "startup_event (DnsSetDefaultResultOrder s) = True"
| "startup_event LoadCustomThemes = True"
| "startup_event (SetActiveTheme s) = True"
| "startup_event e = False"

fun relaunch_event :: "event \<Rightarrow> bool" where
  "relaunch_event GetNodeMemoryArgs = True"
| "relaunch_event (ConsoleDebug s) = True"
| "relaunch_event LoadSandboxConfig = True"
| "relaunch_event LoadPartialCliConfig = True"
| "relaunch_event (ValidateAuthMethod t) = True"
| "relaunch_event (RefreshAuth t) = True"
| "relaunch_event (ConsoleError s) = True"
| "relaunch_event ReadStdin = True"
| "relaunch_event (StartSandbox m a) = True"
| "relaunch_event (RelaunchAppInChildProcess m a) = True"
| "relaunch_event e = False"

fun is_StartSandbox :: "event \<Rightarrow> bool" where
  "is_StartSandbox (StartSandbox m a) = True"
| "is_StartSandbox e = False"

fun is_child_launch :: "event \<Rightarrow> bool" where
  "is_child_launch (StartSandbox m a) = True"
| "is_child_launch (RelaunchAppInChildProcess m a) = True"
| "is_child_launch e = False"

subsection \<open>Example runs\<close>

text \<open>
  Concrete processes on which the theorems below are evaluated. \<open>example_world\<close> is an
  interactive start on a terminal, outside the sandbox, with no sandbox configured.
\<close>

definition example_world :: world where
  "example_world =
     \<lparr> process_argv = [''node'', ''qwen''], stdin_isTTY = True, stdin_isRaw = False,
       readStdin = [], env_SANDBOX = None, env_GEMINI_CLI_NO_RELAUNCH = None,
       os_totalmem = 16384 * 1048576, v8_heap_size_limit = 4096 * 1048576,
       dnsResolutionOrder = None, autoConfigureMemory = None, ui_theme = None,
       auth_selectedType = None, auth_useExternal = None, argv_promptInteractive = None,
       cli_isDebugMode = False, setActiveTheme = True, loadSandboxConfig = None,
       validateAuthMethod = None, refreshAuth = None, start_sandbox = (\<lambda>k. 0),
       getListExtensions = False, extension_names = [], isInteractive = True,
       isBrowserLaunchSuppressed = False, getExperimentalZedIntegration = False,
       getQuestion = [], getDebugMode = False, detectAndEnableKittyProtocol = Some True,
       LOGIN_WITH_GOOGLE = ''oauth-personal'' \<rparr>"

text \<open>Children that exit with the sentinel 42 twice and then with 5; plain children that
  exit with 0.\<close>

definition relaunch_twice :: "nat \<Rightarrow> int" where
  "relaunch_twice k = (if k < 2 then 42 else 5)"

definition plain_child :: "string list \<Rightarrow> string list \<Rightarrow> nat \<Rightarrow> int" where
  "plain_child nodeArgs scriptArgs k = 0"

definition returns_at_once :: "(nat \<Rightarrow> int) \<Rightarrow> call_result" where
  "returns_at_once launcher = Returns"

definition app_returns_at_once :: "string list \<Rightarrow> string list \<Rightarrow> call_result" where
  "app_returns_at_once nodeArgs scriptArgs = Returns"

text \<open>A plain relaunch that ends the process with the child's exit status 3.\<close>

definition app_exits_with_3 :: "string list \<Rightarrow> string list \<Rightarrow> call_result" where
  "app_exits_with_3 nodeArgs scriptArgs = Exits 3"

text \<open>\<^verbatim>\<open>--prompt-interactive hello\<close> with piped input.\<close>

definition piped_interactive_world :: world where
  "piped_interactive_world =
     example_world \<lparr> argv_promptInteractive := Some ''hello'', stdin_isTTY := False \<rparr>"

text \<open>A sandbox is configured and an authentication method is selected.\<close>

definition sandbox_world :: world where
  "sandbox_world =
     example_world \<lparr> loadSandboxConfig := Some \<lparr> kind = ''docker'', image = ''sandbox'' \<rparr>,
                     auth_selectedType := Some ''qwen-oauth'',
                     start_sandbox := relaunch_twice \<rparr>"

text \<open>The same, with a validator that rejects the method.\<close>

definition auth_failure_world :: world where
  "auth_failure_world = sandbox_world \<lparr> validateAuthMethod := Some ''invalid'' \<rparr>"

text \<open>Inside the sandbox: \<^verbatim>\<open>echo ctx | qwen -p hi\<close>.\<close>

definition piped_prompt_world :: world where
  "piped_prompt_world =
     example_world \<lparr> env_SANDBOX := Some ''docker'', isInteractive := False,
                     getQuestion := ''hi'', stdin_isTTY := False, readStdin := ''ctx'' \<rparr>"

text \<open>Inside the sandbox, nothing piped and no prompt, not interactive.\<close>

definition no_input_world :: world where
  "no_input_world = example_world \<lparr> env_SANDBOX := Some ''docker'', isInteractive := False \<rparr>"

text \<open>Inside the sandbox, interactive on a terminal.\<close>

definition interactive_world :: world where
  "interactive_world = example_world \<lparr> env_SANDBOX := Some ''docker'' \<rparr>"

section \<open>Properties of the pure functions\<close>

subsection \<open>Decimal numerals\<close>

lemma digit_val_digit_char: "d < 10 \<Longrightarrow> digit_val (digit_char d) = d"
proof -
  assume "d < 10"
  then have "d = 0 \<or> d = 1 \<or> d = 2 \<or> d = 3 \<or> d = 4 \<or> d = 5 \<or> d = 6 \<or> d = 7 \<or> d = 8 \<or> d = 9"
    by arith
  then show ?thesis
    by (elim disjE) (simp_all add: digit_val_def digit_char_def)
qed

lemma read_nat_snoc: "read_nat (s @ [c]) = 10 * read_nat s + digit_val c"
  by (simp add: read_nat_def)

lemma read_show_nat: "read_nat (show_nat n) = n"
proof (induction n rule: show_nat.induct)
  case (1 n)
  show ?case
  proof (cases "n < 10")
    case True
    then show ?thesis
      by (subst show_nat.simps) (simp add: read_nat_def digit_val_digit_char)
  next
    case False
    then have "read_nat (show_nat n) =
        10 * read_nat (show_nat (n div 10)) + digit_val (digit_char (n mod 10))"
      by (subst show_nat.simps) (simp add: read_nat_snoc)
    with False 1 show ?thesis by (simp add: digit_val_digit_char)
  qed
qed

lemma show_nat_8192: "show_nat 8192 = ''8192''"
  by (simp add: show_nat.simps digit_char_def)

subsection \<open>The DNS order validator\<close>

text \<open>
  C9. \<open>"ipv4first"\<close> maps to itself, \<open>"verbatim"\<close> maps to itself, an undefined
  value maps to the default \<open>"ipv4first"\<close>, and any other string maps to
  \<open>"ipv4first"\<close> with one warning logged. Whatever the input, the validator returns one of
  the two orders, and the stage of \<^verbatim>\<open>main\<close> that calls it does not end the run: it goes
  on to set the DNS order to the validated value.
\<close>

theorem validateDnsResolutionOrder_correct:
  "validateDnsResolutionOrder (Some ''ipv4first'') = ([], ''ipv4first'') \<and>
   validateDnsResolutionOrder (Some ''verbatim'') = ([], ''verbatim'') \<and>
   validateDnsResolutionOrder None = ([], ''ipv4first'') \<and>
   (v \<noteq> ''ipv4first'' \<and> v \<noteq> ''verbatim'' \<longrightarrow>
      validateDnsResolutionOrder (Some v) = ([dns_warning v], ''ipv4first'')) \<and>
   snd (validateDnsResolutionOrder order) \<in> {''ipv4first'', ''verbatim''} \<and>
   snd (configure w) = None \<and>
   DnsSetDefaultResultOrder (snd (validateDnsResolutionOrder (dnsResolutionOrder w)))
     \<in> set (fst (configure w))"
  by (simp add: validateDnsResolutionOrder_def defaultValue_def configure_def cont_def
      split: option.split)

theorem validateDnsResolutionOrder_correct_witness:
  "validateDnsResolutionOrder (Some ''bogus'') =
     ([''Invalid value for dnsResolutionOrder in settings: '' @ [CHR 0x22] @ ''bogus'' @ [CHR 0x22] @
       ''. Using default '' @ [CHR 0x22] @ ''ipv4first'' @ [CHR 0x22] @ ''.''], ''ipv4first'')"
  using validateDnsResolutionOrder_correct [of "''bogus''"]
  by (simp add: dns_warning_def defaultValue_def)

subsection \<open>The memory calculator\<close>

lemma target_div: "targetMaxOldSpaceSizeInMB tm = int (tm div 2097152)"
proof -
  have "totalMemoryMB tm * 0.5 = (of_nat tm :: rat) / of_nat 2097152"
    by (simp add: totalMemoryMB_def)
  then show ?thesis
    unfolding targetMaxOldSpaceSizeInMB_def
    by (simp only: floor_divide_of_nat_eq)
qed

lemma current_div: "currentMaxOldSpaceSizeMb heap = int (heap div 1048576)"
proof -
  have "(of_nat heap :: rat) / 1024 / 1024 = of_nat heap / of_nat 1048576"
    by simp
  then show ?thesis
    unfolding currentMaxOldSpaceSizeMb_def
    by (simp only: floor_divide_of_nat_eq)
qed

text \<open>
  C3. The target is the floor of half the total memory in mebibytes. With the override
  marker set (truthy) the flag list is empty whatever the other inputs; otherwise, when the
  target exceeds the current maximum (in mebibytes) the list is exactly the one flag
  \<^verbatim>\<open>--max-old-space-size=\<close> followed by the decimal numeral of the target, and it is empty
  when the target does not exceed it.
\<close>

theorem getNodeMemoryArgs_correct:
  "targetMaxOldSpaceSizeInMB tm = \<lfloor>totalMemoryMB tm * 0.5\<rfloor> \<and>
   targetMaxOldSpaceSizeInMB tm = int (tm div (2 * 1048576)) \<and>
   currentMaxOldSpaceSizeMb heap = int (heap div 1048576) \<and>
   (truthy env \<longrightarrow> snd (getNodeMemoryArgs dbg tm heap env) = []) \<and>
   (\<not> truthy env \<and> targetMaxOldSpaceSizeInMB tm > currentMaxOldSpaceSizeMb heap \<longrightarrow>
      snd (getNodeMemoryArgs dbg tm heap env) =
        [''--max-old-space-size='' @ show_int (targetMaxOldSpaceSizeInMB tm)] \<and>
      int (read_nat (show_int (targetMaxOldSpaceSizeInMB tm))) = targetMaxOldSpaceSizeInMB tm) \<and>
   (\<not> truthy env \<and> \<not> targetMaxOldSpaceSizeInMB tm > currentMaxOldSpaceSizeMb heap \<longrightarrow>
      snd (getNodeMemoryArgs dbg tm heap env) = [])"
proof (intro conjI impI)
  show "targetMaxOldSpaceSizeInMB tm = \<lfloor>totalMemoryMB tm * 0.5\<rfloor>"
    by (simp add: targetMaxOldSpaceSizeInMB_def)
  show "targetMaxOldSpaceSizeInMB tm = int (tm div (2 * 1048576))"
    by (simp add: target_div)
  show "currentMaxOldSpaceSizeMb heap = int (heap div 1048576)"
    by (rule current_div)
  show "snd (getNodeMemoryArgs dbg tm heap env) = []" if "truthy env"
    using that by (simp add: getNodeMemoryArgs_def Let_def)
  show "snd (getNodeMemoryArgs dbg tm heap env) =
        [''--max-old-space-size='' @ show_int (targetMaxOldSpaceSizeInMB tm)]"
    if "\<not> truthy env \<and> targetMaxOldSpaceSizeInMB tm > currentMaxOldSpaceSizeMb heap"
    using that by (simp add: getNodeMemoryArgs_def Let_def)
  show "int (read_nat (show_int (targetMaxOldSpaceSizeInMB tm))) = targetMaxOldSpaceSizeInMB tm"
    by (simp add: target_div show_int_def read_show_nat)
  show "snd (getNodeMemoryArgs dbg tm heap env) = []"
    if "\<not> truthy env \<and> \<not> targetMaxOldSpaceSizeInMB tm > currentMaxOldSpaceSizeMb heap"
    using that by (simp add: getNodeMemoryArgs_def Let_def)
qed

theorem getNodeMemoryArgs_correct_witness:
  "snd (getNodeMemoryArgs False (8192 * 1048576) (4096 * 1048576) None) = [] \<and>
   snd (getNodeMemoryArgs False (16384 * 1048576) (4096 * 1048576) None) =
     [''--max-old-space-size=8192''] \<and>
   snd (getNodeMemoryArgs False (16384 * 1048576) (4096 * 1048576) (Some ''true'')) = []"
proof -
  note a = conjunct2 [OF getNodeMemoryArgs_correct
    [where tm = "8192 * 1048576" and heap = "4096 * 1048576" and env = None and dbg = False]]
  note b = conjunct2 [OF getNodeMemoryArgs_correct
    [where tm = "16384 * 1048576" and heap = "4096 * 1048576" and env = None and dbg = False]]
  note c = conjunct2 [OF getNodeMemoryArgs_correct
    [where tm = "16384 * 1048576" and heap = "4096 * 1048576" and env = "Some ''true''"
       and dbg = False]]
  from a have t1: "targetMaxOldSpaceSizeInMB (8192 * 1048576) = 4096" by simp
  from b have t2: "targetMaxOldSpaceSizeInMB (16384 * 1048576) = 8192" by simp
  from a have cur: "currentMaxOldSpaceSizeMb (4096 * 1048576) = 4096" by simp
  from a t1 cur have "snd (getNodeMemoryArgs False (8192 * 1048576) (4096 * 1048576) None) = []"
    by simp
  moreover from b t2 cur
  have "snd (getNodeMemoryArgs False (16384 * 1048576) (4096 * 1048576) None) =
     [''--max-old-space-size=8192'']"
    by (simp add: show_int_def show_nat_8192)
  moreover from c
  have "snd (getNodeMemoryArgs False (16384 * 1048576) (4096 * 1048576) (Some ''true'')) = []"
    by simp
  ultimately show ?thesis by blast
qed

subsection \<open>Stdin injection\<close>

lemma findIndex_none: "(\<forall>x\<in>set xs. \<not> P x) \<Longrightarrow> findIndex P xs = - 1"
  by (induction xs) simp_all

lemma findIndex_first:
  "i < length xs \<Longrightarrow> P (xs ! i) \<Longrightarrow> (\<forall>j<i. \<not> P (xs ! j)) \<Longrightarrow> findIndex P xs = int i"
proof (induction xs arbitrary: i)
  case Nil
  then show ?case by simp
next
  case (Cons x xs)
  show ?case
  proof (cases i)
    case 0
    with Cons.prems show ?thesis by simp
  next
    case (Suc k)
    with Cons.prems have "\<not> P x" by auto
    moreover from Suc Cons.prems have "findIndex P xs = int k"
      by (intro Cons.IH) auto
    ultimately show ?thesis using Suc by (simp add: Let_def)
  qed
qed

lemma first_index:
  "i < length xs \<Longrightarrow> P (xs ! i) \<Longrightarrow> \<exists>k\<le>i. P (xs ! k) \<and> (\<forall>j<k. \<not> P (xs ! j))"
proof (induction i rule: less_induct)
  case (less i)
  show ?case
  proof (cases "\<exists>j<i. P (xs ! j)")
    case True
    then obtain j where j: "j < i" "P (xs ! j)" by blast
    with less.prems have "j < length xs" by simp
    from less.IH [OF j(1) this j(2)] obtain k where "k \<le> j" "P (xs ! k)" "\<forall>j<k. \<not> P (xs ! j)"
      by blast
    with j(1) show ?thesis by (intro exI [of _ k]) simp
  next
    case False
    with less.prems show ?thesis by (intro exI [of _ i]) simp
  qed
qed

lemma inject_replace:
  assumes s: "s \<noteq> []" and i: "i + 1 < length args" and flag: "is_prompt_flag (args ! i)"
    and first: "\<forall>j<i. \<not> is_prompt_flag (args ! j)"
  shows "injectStdinIntoArgs args (Some s) = args[i + 1 := s @ [LF, LF] @ args ! (i + 1)]"
proof -
  from i have "i < length args" by simp
  then have "findIndex is_prompt_flag args = int i"
    using flag first by (rule findIndex_first)
  with s i show ?thesis
    by (simp add: injectStdinIntoArgs_def nat_add_distrib)
qed

lemma inject_append:
  assumes s: "s \<noteq> []" and none: "\<not> (\<exists>i. i + 1 < length args \<and> is_prompt_flag (args ! i))"
  shows "injectStdinIntoArgs args (Some s) = args @ [''--prompt'', s]"
proof (cases "\<exists>x\<in>set args. is_prompt_flag x")
  case False
  then have "findIndex is_prompt_flag args = - 1" by (intro findIndex_none) simp
  with s show ?thesis by (simp add: injectStdinIntoArgs_def)
next
  case True
  then obtain i where "i < length args" "is_prompt_flag (args ! i)"
    by (auto simp: in_set_conv_nth)
  from first_index [of i args is_prompt_flag, OF this]
  obtain k where k: "k \<le> i" "is_prompt_flag (args ! k)" "\<forall>j<k. \<not> is_prompt_flag (args ! j)"
    by blast
  with \<open>i < length args\<close> have klen: "k < length args" by simp
  then have idx: "findIndex is_prompt_flag args = int k"
    using k(2,3) by (rule findIndex_first)
  from none k(2) have "\<not> k + 1 < length args" by blast
  with s idx show ?thesis by (simp add: injectStdinIntoArgs_def)
qed

text \<open>
  C2. With a non-empty captured text \<open>s\<close>: if some prompt flag (\<^verbatim>\<open>--prompt\<close> or
  \<^verbatim>\<open>-p\<close>) has a following element, the result is \<open>args\<close> with the element after the
  first prompt flag replaced by \<open>s\<close>, a blank line and the original value, of the same
  length and equal to \<open>args\<close> everywhere else; if no prompt flag has a following element,
  the result is \<open>args\<close> followed by \<^verbatim>\<open>--prompt\<close> and \<open>s\<close>. With an empty or undefined
  captured text the result is \<open>args\<close>. The model is a function of its two arguments only.
\<close>

theorem injectStdinIntoArgs_correct:
  "(s \<noteq> [] \<and> (\<exists>i. i + 1 < length args \<and> is_prompt_flag (args ! i)) \<longrightarrow>
      (\<exists>i. i + 1 < length args \<and> is_prompt_flag (args ! i) \<and> (\<forall>j<i. \<not> is_prompt_flag (args ! j)) \<and>
           injectStdinIntoArgs args (Some s) = args[i + 1 := s @ [LF, LF] @ args ! (i + 1)] \<and>
           length (injectStdinIntoArgs args (Some s)) = length args \<and>
           (\<forall>j<length args. j \<noteq> i + 1 \<longrightarrow> injectStdinIntoArgs args (Some s) ! j = args ! j))) \<and>
   (s \<noteq> [] \<and> \<not> (\<exists>i. i + 1 < length args \<and> is_prompt_flag (args ! i)) \<longrightarrow>
      injectStdinIntoArgs args (Some s) = args @ [''--prompt'', s] \<and>
      take (length args) (injectStdinIntoArgs args (Some s)) = args) \<and>
   injectStdinIntoArgs args (Some []) = args \<and>
   injectStdinIntoArgs args None = args"
proof (intro conjI impI)
  assume h: "s \<noteq> [] \<and> (\<exists>i. i + 1 < length args \<and> is_prompt_flag (args ! i))"
  then obtain i where i: "i + 1 < length args" "is_prompt_flag (args ! i)" by blast
  then have "i < length args" by simp
  from first_index [of i args is_prompt_flag, OF this i(2)]
  obtain k where k: "k \<le> i" "is_prompt_flag (args ! k)" "\<forall>j<k. \<not> is_prompt_flag (args ! j)"
    by blast
  from k(1) i(1) have klen: "k + 1 < length args" by simp
  from h have "s \<noteq> []" by simp
  from inject_replace [OF this klen k(2,3)]
  have eq: "injectStdinIntoArgs args (Some s) = args[k + 1 := s @ [LF, LF] @ args ! (k + 1)]" .
  show "\<exists>i. i + 1 < length args \<and> is_prompt_flag (args ! i) \<and> (\<forall>j<i. \<not> is_prompt_flag (args ! j)) \<and>
           injectStdinIntoArgs args (Some s) = args[i + 1 := s @ [LF, LF] @ args ! (i + 1)] \<and>
           length (injectStdinIntoArgs args (Some s)) = length args \<and>
           (\<forall>j<length args. j \<noteq> i + 1 \<longrightarrow> injectStdinIntoArgs args (Some s) ! j = args ! j)"
    using klen k(2,3) eq by (intro exI [of _ k]) simp
next
  assume h: "s \<noteq> [] \<and> \<not> (\<exists>i. i + 1 < length args \<and> is_prompt_flag (args ! i))"
  then have "injectStdinIntoArgs args (Some s) = args @ [''--prompt'', s]"
    by (intro inject_append) simp_all
  then show "injectStdinIntoArgs args (Some s) = args @ [''--prompt'', s]"
    and "take (length args) (injectStdinIntoArgs args (Some s)) = args"
    by simp_all
next
  show "injectStdinIntoArgs args (Some []) = args"
    by (simp add: injectStdinIntoArgs_def)
next
  show "injectStdinIntoArgs args None = args"
    by (simp add: injectStdinIntoArgs_def)
qed

theorem injectStdinIntoArgs_correct_witness:
  "injectStdinIntoArgs [''--prompt'', ''hi''] (Some ''ctx'') = [''--prompt'', ''ctx'' @ [LF, LF] @ ''hi''] \<and>
   injectStdinIntoArgs [''other''] (Some ''ctx'') = [''other'', ''--prompt'', ''ctx''] \<and>
   injectStdinIntoArgs [''other''] (Some []) = [''other'']"
proof -
  have flag: "\<exists>i. i + 1 < length [''--prompt'', ''hi''] \<and> is_prompt_flag ([''--prompt'', ''hi''] ! i)"
    by (intro exI [of _ 0]) (simp add: is_prompt_flag_def)
  from injectStdinIntoArgs_correct [of "''ctx''" "[''--prompt'', ''hi'']"] flag
  obtain i where i: "i + 1 < length [''--prompt'', ''hi'']"
    and eq: "injectStdinIntoArgs [''--prompt'', ''hi''] (Some ''ctx'') =
         [''--prompt'', ''hi''][i + 1 := ''ctx'' @ [LF, LF] @ [''--prompt'', ''hi''] ! (i + 1)]"
    by auto
  from i have "i = 0" by simp
  with eq have one: "injectStdinIntoArgs [''--prompt'', ''hi''] (Some ''ctx'') =
      [''--prompt'', ''ctx'' @ [LF, LF] @ ''hi'']" by simp
  have none: "\<not> (\<exists>i. i + 1 < length [''other''] \<and> is_prompt_flag ([''other''] ! i))"
    by simp
  with injectStdinIntoArgs_correct [of "''ctx''" "[''other'']"]
  have two: "injectStdinIntoArgs [''other''] (Some ''ctx'') = [''other'', ''--prompt'', ''ctx'']"
    by simp
  from injectStdinIntoArgs_correct [of "''ctx''" "[''other'']"]
  have three: "injectStdinIntoArgs [''other''] (Some []) = [''other'']" by blast
  from one two three show ?thesis by blast
qed

subsection \<open>The relaunch protocol\<close>

lemma relaunch_loop_Some:
  assumes run: "relaunch_loop sentinel launcher k = Some r"
  shows "\<exists>n. (\<forall>j<n. launcher (k + j) = sentinel) \<and> launcher (k + n) \<noteq> sentinel \<and>
             r = (Suc (k + n), launcher (k + n))"
proof (rule relaunch_loop.raw_induct
    [where P = "\<lambda>s l k r. \<exists>n. (\<forall>j<n. l (k + j) = s) \<and> l (k + n) \<noteq> s \<and> r = (Suc (k + n), l (k + n))",
     OF _ run])
  fix loop :: "int \<Rightarrow> (nat \<Rightarrow> int) \<Rightarrow> nat \<Rightarrow> (nat \<times> int) option" and s l k r
  assume IH: "\<And>s l k r. loop s l k = Some r \<Longrightarrow>
      \<exists>n. (\<forall>j<n. l (k + j) = s) \<and> l (k + n) \<noteq> s \<and> r = (Suc (k + n), l (k + n))"
    and step: "(if l k = s then loop s l (Suc k) else Some (Suc k, l k)) = Some r"
  show "\<exists>n. (\<forall>j<n. l (k + j) = s) \<and> l (k + n) \<noteq> s \<and> r = (Suc (k + n), l (k + n))"
  proof (cases "l k = s")
    case True
    with step have "loop s l (Suc k) = Some r" by simp
    from IH [OF this] obtain n where n: "\<forall>j<n. l (Suc k + j) = s"
        "l (Suc k + n) \<noteq> s" "r = (Suc (Suc k + n), l (Suc k + n))"
      by blast
    have "\<forall>j<Suc n. l (k + j) = s"
    proof (intro allI impI)
      fix j assume "j < Suc n"
      show "l (k + j) = s"
      proof (cases j)
        case 0
        with True show ?thesis by simp
      next
        case (Suc i)
        with \<open>j < Suc n\<close> n(1) show ?thesis by simp
      qed
    qed
    with n(2,3) show ?thesis
      by (intro exI [of _ "Suc n"]) simp
  next
    case False
    with step have "r = (Suc k, l k)" by simp
    with False show ?thesis
      by (intro exI [of _ 0]) simp
  qed
qed

lemma relaunch_loop_None:
  "(\<forall>j. launcher (k + j) = sentinel) \<Longrightarrow> relaunch_loop sentinel launcher k = None"
proof (rule ccontr)
  assume all: "\<forall>j. launcher (k + j) = sentinel" and "relaunch_loop sentinel launcher k \<noteq> None"
  then obtain r where "relaunch_loop sentinel launcher k = Some r" by auto
  from relaunch_loop_Some [OF this] all show False by blast
qed

lemma relaunch_loop_first:
  "(\<forall>j<n. launcher (k + j) = sentinel) \<Longrightarrow> launcher (k + n) \<noteq> sentinel \<Longrightarrow>
   relaunch_loop sentinel launcher k = Some (Suc (k + n), launcher (k + n))"
proof (induction n arbitrary: k)
  case 0
  then show ?case by (subst relaunch_loop.simps) simp
next
  case (Suc n)
  from Suc.prems(1) have head: "launcher k = sentinel"
    by (metis add.right_neutral zero_less_Suc)
  from Suc.prems(1) have "\<forall>j<n. launcher (Suc k + j) = sentinel"
    by (metis Suc_less_eq add_Suc_right add_Suc)
  moreover from Suc.prems(2) have "launcher (Suc k + n) \<noteq> sentinel" by simp
  ultimately have "relaunch_loop sentinel launcher (Suc k) =
      Some (Suc (Suc k + n), launcher (Suc k + n))"
    by (rule Suc.IH)
  with head show ?case by (subst relaunch_loop.simps) simp
qed

text \<open>
  C4. When the exit codes of the first \<open>n\<close> children are the sentinel and the next one is
  not, the protocol spawns exactly \<open>n + 1\<close> children and ends with that child's exit code as
  the propagated status. It ends in no other way: whenever it ends, the status is not the
  sentinel, it is the exit code of the last child spawned, and every earlier child exited
  with the sentinel. When every child exits with the sentinel it never ends.
\<close>

theorem relaunchOnExitCode_correct:
  "((\<forall>j<n. launcher j = sentinel) \<and> launcher n \<noteq> sentinel \<longrightarrow>
      relaunchOnExitCode sentinel launcher = Some (Suc n, launcher n)) \<and>
   (relaunchOnExitCode sentinel launcher = Some (spawns, status) \<longrightarrow>
      0 < spawns \<and> status \<noteq> sentinel \<and> launcher (spawns - 1) = status \<and>
      (\<forall>j<spawns - 1. launcher j = sentinel)) \<and>
   ((\<forall>j. launcher j = sentinel) \<longrightarrow> relaunchOnExitCode sentinel launcher = None)"
proof -
  have first: "relaunchOnExitCode sentinel launcher = Some (Suc n, launcher n)"
    if "(\<forall>j<n. launcher j = sentinel) \<and> launcher n \<noteq> sentinel"
    using that relaunch_loop_first [of n launcher 0 sentinel]
    by (simp add: relaunchOnExitCode_def)
  have only: "0 < spawns \<and> status \<noteq> sentinel \<and> launcher (spawns - 1) = status \<and>
      (\<forall>j<spawns - 1. launcher j = sentinel)"
    if "relaunchOnExitCode sentinel launcher = Some (spawns, status)"
  proof -
    from that have "relaunch_loop sentinel launcher 0 = Some (spawns, status)"
      by (simp add: relaunchOnExitCode_def)
    from relaunch_loop_Some [OF this] show ?thesis by auto
  qed
  have never: "relaunchOnExitCode sentinel launcher = None" if "\<forall>j. launcher j = sentinel"
    using that relaunch_loop_None [of launcher 0 sentinel]
    by (simp add: relaunchOnExitCode_def)
  from first only never show ?thesis by blast
qed

theorem relaunchOnExitCode_correct_witness:
  "relaunchOnExitCode 42 (\<lambda>k. if k < 2 then 42 else 5) = Some (3, 5)"
  using relaunchOnExitCode_correct [where n = 2 and sentinel = 42
      and launcher = "\<lambda>k. if k < 2 then 42 else 5"]
  by (simp add: numeral_3_eq_3)

section \<open>Properties of main\<close>

subsection \<open>Stages and their events\<close>

lemma andThen_None [simp]: "andThen (es, None) k = (es @ fst k, snd k)"
  by (simp add: andThen_def)

lemma andThen_Some [simp]: "andThen (es, Some out) k = (es, Some out)"
  by (simp add: andThen_def)

lemma fst_andThen: "fst (andThen r k) = fst r @ (if snd r = None then fst k else [])"
  by (simp add: andThen_def split: option.split)

lemma snd_andThen: "snd (andThen r k) = (if snd r = None then snd k else snd r)"
  by (simp add: andThen_def split: option.split)

lemma andThen_stopped: "snd r = Some out \<Longrightarrow> andThen r k = r"
  by (simp add: andThen_def)

lemma andThen_continued: "snd r = None \<Longrightarrow> andThen r k = (fst r @ fst k, snd k)"
  by (simp add: andThen_def)

lemma flag_guard_stops:
  "truthy (argv_promptInteractive w) \<and> \<not> stdin_isTTY w \<Longrightarrow>
   flag_guard w =
     ([SetupUnhandledRejectionHandler, LoadSettings, MigrateDeprecatedSettings,
       CleanupCheckpoints, RandomUUID, ParseArguments,
       ConsoleError promptInteractive_message], Some (Exit 1))"
  by (simp add: flag_guard_def cont_def stop_def)

lemma flag_guard_passes:
  "\<not> (truthy (argv_promptInteractive w) \<and> \<not> stdin_isTTY w) \<Longrightarrow>
   flag_guard w =
     ([SetupUnhandledRejectionHandler, LoadSettings, MigrateDeprecatedSettings,
       CleanupCheckpoints, RandomUUID, ParseArguments], None)"
  by (simp add: flag_guard_def cont_def stop_def)


lemma in_fst_andThen:
  "e \<in> set (fst (andThen r k)) \<Longrightarrow> e \<in> set (fst r) \<or> (snd r = None \<and> e \<in> set (fst k))"
  by (simp add: fst_andThen split: if_splits)

lemma flag_guard_events: "e \<in> set (fst (flag_guard w)) \<Longrightarrow> startup_event e"
  by (auto simp: flag_guard_def cont_def stop_def split: if_splits)

lemma snd_configure: "snd (configure w) = None"
  by (simp add: configure_def cont_def)

lemma load_themes_events: "e \<in> set (load_themes w) \<Longrightarrow> startup_event e"
  by (auto simp: load_themes_def split: option.splits if_splits)

lemma configure_events: "e \<in> set (fst (configure w)) \<Longrightarrow> startup_event e"
  by (auto simp: configure_def cont_def dest: load_themes_events)

lemma memoryArgs_events_relaunch: "e \<in> set (memoryArgs_events w) \<Longrightarrow> relaunch_event e"
  by (auto simp: memoryArgs_events_def split: if_splits)

lemma authenticate_skip:
  "\<not> (truthy (auth_selectedType w) \<and> \<not> truthy_bool (auth_useExternal w)) \<Longrightarrow>
   authenticate w = ([], None)"
  by (auto simp: authenticate_def cont_def split: option.splits)

lemma authenticate_invalid:
  "auth_selectedType w = Some t \<Longrightarrow> t \<noteq> [] \<Longrightarrow> \<not> truthy_bool (auth_useExternal w) \<Longrightarrow>
   truthy (validateAuthMethod w) \<Longrightarrow>
   authenticate w = ([ValidateAuthMethod t, ConsoleError auth_error_message], Some (Exit 1))"
  by (simp add: authenticate_def cont_def stop_def)

lemma authenticate_rejected:
  "auth_selectedType w = Some t \<Longrightarrow> t \<noteq> [] \<Longrightarrow> \<not> truthy_bool (auth_useExternal w) \<Longrightarrow>
   \<not> truthy (validateAuthMethod w) \<Longrightarrow> refreshAuth w = Some reason \<Longrightarrow>
   authenticate w =
     ([ValidateAuthMethod t, RefreshAuth t, ConsoleError auth_error_message], Some (Exit 1))"
  by (simp add: authenticate_def cont_def stop_def)

lemma authenticate_ok:
  "auth_selectedType w = Some t \<Longrightarrow> t \<noteq> [] \<Longrightarrow> \<not> truthy_bool (auth_useExternal w) \<Longrightarrow>
   \<not> truthy (validateAuthMethod w) \<Longrightarrow> refreshAuth w = None \<Longrightarrow>
   authenticate w = ([ValidateAuthMethod t, RefreshAuth t], None)"
  by (simp add: authenticate_def cont_def stop_def)

lemma enter_sandbox_shape:
  "enter_sandbox relaunch w =
     ((if \<not> stdin_isTTY w then [ReadStdin] else []) @ [StartSandbox (memoryArgs w) (sandboxArgs w)],
      Some (case relaunch (start_sandbox w) of
              Returns \<Rightarrow> Exit 0 | Exits status \<Rightarrow> Exit status | Never \<Rightarrow> Hang))"
  by (simp add: enter_sandbox_def cont_def stop_def split: call_result.split)

lemma relaunch_stage_inside:
  "truthy (env_SANDBOX w) \<Longrightarrow> relaunch_stage relaunch relaunchApp w = ([], None)"
  by (simp add: relaunch_stage_def cont_def)

lemma relaunch_stage_plain:
  "\<not> truthy (env_SANDBOX w) \<Longrightarrow> loadSandboxConfig w = None \<Longrightarrow>
   relaunch_stage relaunch relaunchApp w =
     (memoryArgs_events w @ [LoadSandboxConfig, RelaunchAppInChildProcess (memoryArgs w) []],
      case relaunchApp (memoryArgs w) [] of
        Returns \<Rightarrow> None | Exits status \<Rightarrow> Some (Exit status) | Never \<Rightarrow> Some Hang)"
  by (simp add: relaunch_stage_def cont_def stop_def split: call_result.split)

lemma relaunch_stage_sandbox:
  "\<not> truthy (env_SANDBOX w) \<Longrightarrow> loadSandboxConfig w = Some cfg \<Longrightarrow>
   relaunch_stage relaunch relaunchApp w =
     andThen (memoryArgs_events w @ [LoadSandboxConfig, LoadPartialCliConfig], None)
       (andThen (authenticate w) (enter_sandbox relaunch w))"
  by (simp add: relaunch_stage_def cont_def stop_def)

lemma authenticate_events: "e \<in> set (fst (authenticate w)) \<Longrightarrow> relaunch_event e"
  by (auto simp: authenticate_def cont_def stop_def split: option.splits if_splits)

lemma enter_sandbox_events: "e \<in> set (fst (enter_sandbox relaunch w)) \<Longrightarrow> relaunch_event e"
  by (auto simp: enter_sandbox_shape split: if_splits)

lemma relaunch_stage_events:
  "e \<in> set (fst (relaunch_stage relaunch relaunchApp w)) \<Longrightarrow> relaunch_event e"
proof (cases "truthy (env_SANDBOX w)")
  case True
  assume "e \<in> set (fst (relaunch_stage relaunch relaunchApp w))"
  with True show ?thesis by (simp add: relaunch_stage_inside)
next
  case False
  assume e: "e \<in> set (fst (relaunch_stage relaunch relaunchApp w))"
  show ?thesis
  proof (cases "loadSandboxConfig w")
    case None
    with False e show ?thesis
      by (auto simp: relaunch_stage_plain dest: memoryArgs_events_relaunch)
  next
    case (Some cfg)
    with False e show ?thesis
      by (auto simp: relaunch_stage_sandbox fst_andThen split: if_splits
          dest: memoryArgs_events_relaunch authenticate_events enter_sandbox_events)
  qed
qed

lemma pre_dispatch_events:
  "e \<in> set (fst (pre_dispatch relaunch relaunchApp w)) \<Longrightarrow> startup_event e \<or> relaunch_event e"
  unfolding pre_dispatch_def
  by (auto dest!: in_fst_andThen dest: flag_guard_events configure_events relaunch_stage_events)

lemma pre_dispatch_no_dispatch_event:
  "e \<in> set (fst (pre_dispatch relaunch relaunchApp w)) \<Longrightarrow> \<not> dispatch_event e"
  by (drule pre_dispatch_events) (cases e; simp)

lemma pre_dispatch_stopped:
  "truthy (argv_promptInteractive w) \<and> \<not> stdin_isTTY w \<Longrightarrow>
   pre_dispatch relaunch relaunchApp w =
     ([SetupUnhandledRejectionHandler, LoadSettings, MigrateDeprecatedSettings,
       CleanupCheckpoints, RandomUUID, ParseArguments,
       ConsoleError promptInteractive_message], Some (Exit 1))"
  by (simp add: pre_dispatch_def flag_guard_stops)

lemma pre_dispatch_passed:
  "\<not> (truthy (argv_promptInteractive w) \<and> \<not> stdin_isTTY w) \<Longrightarrow>
   pre_dispatch relaunch relaunchApp w =
     (fst (flag_guard w) @ fst (configure w) @ fst (relaunch_stage relaunch relaunchApp w),
      snd (relaunch_stage relaunch relaunchApp w))"
  by (simp add: pre_dispatch_def flag_guard_passes andThen_continued snd_configure)

lemma main_stopped:
  "snd (pre_dispatch relaunch relaunchApp w) = Some out \<Longrightarrow>
   main relaunch relaunchApp w = (fst (pre_dispatch relaunch relaunchApp w), out)"
  by (simp add: main_def andThen_stopped finish_def)

lemma main_continued:
  "snd (pre_dispatch relaunch relaunchApp w) = None \<Longrightarrow>
   main relaunch relaunchApp w =
     finish (fst (pre_dispatch relaunch relaunchApp w) @ fst (dispatch w), snd (dispatch w))"
  by (simp add: main_def andThen_continued)

subsection \<open>The flag guard\<close>

text \<open>
  C6 (as amended). When the interactive-prompt flag is supplied (with a non-empty value) while
  standard input is not a terminal, the process emits the incompatibility message and exits
  with status 1. Before that it has run exactly the handler setup, the loading and migration
  of the settings, the checkpoint cleanup, the session id and the argument parsing (which is
  given the merged settings); nothing else runs: no console patch, DNS, theme, sandbox,
  authentication, extension or UI code.
\<close>

theorem flag_guard_exit:
  "truthy (argv_promptInteractive w) \<and> \<not> stdin_isTTY w \<longrightarrow>
   main relaunch relaunchApp w =
     ([SetupUnhandledRejectionHandler, LoadSettings, MigrateDeprecatedSettings,
       CleanupCheckpoints, RandomUUID, ParseArguments,
       ConsoleError promptInteractive_message], Exit 1)"
  by (simp add: main_def pre_dispatch_def flag_guard_stops finish_def)

text \<open>The guard on \<^verbatim>\<open>--prompt-interactive hello\<close> with piped input.\<close>

theorem flag_guard_exit_witness:
  "main returns_at_once app_returns_at_once piped_interactive_world =
     ([SetupUnhandledRejectionHandler, LoadSettings, MigrateDeprecatedSettings,
       CleanupCheckpoints, RandomUUID, ParseArguments,
       ConsoleError promptInteractive_message], Exit 1)"
  using flag_guard_exit [of piped_interactive_world returns_at_once app_returns_at_once]
  by (simp add: piped_interactive_world_def example_world_def)

text \<open>
  C6 as stated fails: the error is not raised before any other side effect. On the run
  with \<^verbatim>\<open>--prompt-interactive hello\<close> and piped input, six calls come before the error
  message, among them the migration of the settings, the checkpoint cleanup and the argument
  parsing that depends on the settings.
\<close>

theorem flag_guard_after_settings:
  "truthy (argv_promptInteractive piped_interactive_world) \<and>
   \<not> stdin_isTTY piped_interactive_world \<and>
   fst (main_with_protocol 42 plain_child piped_interactive_world) =
     [SetupUnhandledRejectionHandler, LoadSettings, MigrateDeprecatedSettings,
      CleanupCheckpoints, RandomUUID, ParseArguments, ConsoleError promptInteractive_message] \<and>
   fst (main_with_protocol 42 plain_child piped_interactive_world) \<noteq>
     [ConsoleError promptInteractive_message]"
  by (simp add: main_with_protocol_def main_def pre_dispatch_def flag_guard_stops finish_def
      piped_interactive_world_def example_world_def)

subsection \<open>Order of events in a trace\<close>

lemma precedes_iff:
  "precedes P Q tr \<longleftrightarrow> (\<forall>pre e post. tr = pre @ e # post \<and> Q e \<longrightarrow> (\<exists>x\<in>set pre. P x))"
proof (induction tr)
  case Nil
  then show ?case by simp
next
  case (Cons x xs)
  show ?case
  proof
    assume h: "precedes P Q (x # xs)"
    show "\<forall>pre e post. x # xs = pre @ e # post \<and> Q e \<longrightarrow> (\<exists>x\<in>set pre. P x)"
    proof (intro allI impI)
      fix pre e post
      assume d: "x # xs = pre @ e # post \<and> Q e"
      show "\<exists>x\<in>set pre. P x"
      proof (cases pre)
        case Nil
        with d h show ?thesis by simp
      next
        case (Cons y pre')
        with d have y: "y = x" and xs: "xs = pre' @ e # post" by simp_all
        show ?thesis
        proof (cases "P x")
          case True
          with Cons y show ?thesis by simp
        next
          case False
          with h have "precedes P Q xs" by simp
          with Cons.IH xs d have "\<exists>x\<in>set pre'. P x" by blast
          with Cons show ?thesis by auto
        qed
      qed
    qed
  next
    assume h: "\<forall>pre e post. x # xs = pre @ e # post \<and> Q e \<longrightarrow> (\<exists>x\<in>set pre. P x)"
    have nq: "\<not> Q x"
    proof
      assume "Q x"
      with h [rule_format, of "[]" x xs] show False by simp
    qed
    have "precedes P Q xs" if "\<not> P x"
    proof -
      have "\<exists>y\<in>set pre. P y" if d: "xs = pre @ e # post \<and> Q e" for pre e post
      proof -
        from d have "x # xs = (x # pre) @ e # post \<and> Q e" by simp
        with h have "\<exists>y\<in>set (x # pre). P y" by blast
        with \<open>\<not> P x\<close> show ?thesis by auto
      qed
      with Cons.IH show ?thesis by blast
    qed
    with nq show "precedes P Q (x # xs)" by auto
  qed
qed

lemma precedes_append:
  "(\<forall>x\<in>set xs. \<not> Q x) \<Longrightarrow> precedes P Q (xs @ ys) = ((\<exists>x\<in>set xs. P x) \<or> precedes P Q ys)"
  by (induction xs) auto

lemma precedes_none: "(\<forall>x\<in>set xs. \<not> Q x) \<Longrightarrow> precedes P Q xs"
  by (induction xs) auto

lemma fst_main:
  "fst (main relaunch relaunchApp w) =
     fst (pre_dispatch relaunch relaunchApp w) @
     (if snd (pre_dispatch relaunch relaunchApp w) = None then fst (dispatch w) else [])"
  by (simp add: main_def finish_def fst_andThen)

lemma snd_dispatch: "snd (dispatch w) \<noteq> None"
  by (simp add: dispatch_def load_config_def raw_mode_def initialize_def zed_def
      startupWarnings_def interactive_def non_interactive_def cont_def stop_def)

lemma load_config_events: "e \<in> set (fst (load_config w)) \<Longrightarrow> dispatch_event e"
  by (auto simp: load_config_def cont_def stop_def split: if_splits)

lemma raw_mode_events: "e \<in> set (fst (raw_mode w)) \<Longrightarrow> dispatch_event e"
  by (auto simp: raw_mode_def cont_def split: if_splits)

lemma initialize_events: "e \<in> set (fst (initialize w)) \<Longrightarrow> dispatch_event e"
  by (auto simp: initialize_def cont_def split: if_splits)

lemma zed_events: "e \<in> set (fst (zed w)) \<Longrightarrow> dispatch_event e"
  by (auto simp: zed_def cont_def stop_def split: if_splits)

lemma startupWarnings_events: "e \<in> set (fst (startupWarnings w)) \<Longrightarrow> dispatch_event e"
  by (auto simp: startupWarnings_def cont_def)

lemma interactive_events: "e \<in> set (fst (interactive w)) \<Longrightarrow> dispatch_event e"
  by (auto simp: interactive_def cont_def stop_def split: if_splits)

lemma non_interactive_events:
  "e \<in> set (fst (non_interactive w)) \<Longrightarrow>
   dispatch_event e \<or> e = ReadStdin \<or> e = ConsoleError no_input_message"
  by (auto simp: non_interactive_def cont_def stop_def split: if_splits)

lemma dispatch_events:
  "e \<in> set (fst (dispatch w)) \<Longrightarrow>
   dispatch_event e \<or> e = ReadStdin \<or> e = ConsoleError no_input_message"
  unfolding dispatch_def
  by (auto dest!: in_fst_andThen
      dest: load_config_events raw_mode_events initialize_events zed_events
        startupWarnings_events interactive_events non_interactive_events)

lemma main_events:
  "e \<in> set (fst (main relaunch relaunchApp w)) \<Longrightarrow>
   e \<in> set (fst (flag_guard w)) \<or> e \<in> set (fst (configure w)) \<or>
   e \<in> set (fst (relaunch_stage relaunch relaunchApp w)) \<or>
   (snd (pre_dispatch relaunch relaunchApp w) = None \<and> e \<in> set (fst (dispatch w)))"
  by (auto simp: fst_main pre_dispatch_def split: if_splits dest!: in_fst_andThen)

lemma relaunch_stage_launch:
  "e \<in> set (fst (relaunch_stage relaunch relaunchApp w)) \<Longrightarrow> is_child_launch e \<Longrightarrow>
   e = StartSandbox (memoryArgs w) (sandboxArgs w) \<or>
   e = RelaunchAppInChildProcess (memoryArgs w) []"
  by (auto simp: relaunch_stage_def memoryArgs_events_def authenticate_def enter_sandbox_shape
      cont_def stop_def fst_andThen
      split: if_splits option.splits call_result.splits)

lemma relaunch_stage_calculator:
  "GetNodeMemoryArgs \<in> set (fst (relaunch_stage relaunch relaunchApp w)) \<Longrightarrow>
   truthy_bool (autoConfigureMemory w)"
  by (auto simp: relaunch_stage_def memoryArgs_events_def authenticate_def enter_sandbox_shape
      cont_def stop_def fst_andThen
      split: if_splits option.splits call_result.splits)

lemma main_launch:
  assumes e: "e \<in> set (fst (main relaunch relaunchApp w))" and l: "is_child_launch e"
  shows "e = StartSandbox (memoryArgs w) (sandboxArgs w) \<or>
         e = RelaunchAppInChildProcess (memoryArgs w) []"
proof -
  from l have "\<not> startup_event e" "\<not> dispatch_event e" "e \<noteq> ReadStdin"
      "e \<noteq> ConsoleError no_input_message"
    by (cases e; simp)+
  with main_events [OF e] have "e \<in> set (fst (relaunch_stage relaunch relaunchApp w))"
    by (auto dest: flag_guard_events configure_events dispatch_events)
  from this l show ?thesis by (rule relaunch_stage_launch)
qed

text \<open>
  C10. In every run of \<^verbatim>\<open>main\<close> the memory calculator is called only when the setting
  \<^verbatim>\<open>advanced.autoConfigureMemory\<close> is enabled; the memory flags handed to the sandbox
  relaunch and to the plain child relaunch are \<open>memoryArgs\<close>, and \<open>memoryArgs\<close> is empty
  when the setting is absent or false, whatever the total memory and the heap limit are.
\<close>

theorem memoryArgs_only_when_enabled:
  "(GetNodeMemoryArgs \<in> set (fst (main relaunch relaunchApp w)) \<longrightarrow>
      truthy_bool (autoConfigureMemory w)) \<and>
   (\<forall>m a. StartSandbox m a \<in> set (fst (main relaunch relaunchApp w)) \<longrightarrow> m = memoryArgs w) \<and>
   (\<forall>m a. RelaunchAppInChildProcess m a \<in> set (fst (main relaunch relaunchApp w)) \<longrightarrow>
      m = memoryArgs w) \<and>
   (\<not> truthy_bool (autoConfigureMemory w) \<longrightarrow>
      memoryArgs w = [] \<and>
      GetNodeMemoryArgs \<notin> set (fst (main relaunch relaunchApp w)) \<and>
      (\<forall>m a. StartSandbox m a \<in> set (fst (main relaunch relaunchApp w)) \<longrightarrow> m = []) \<and>
      (\<forall>m a. RelaunchAppInChildProcess m a \<in> set (fst (main relaunch relaunchApp w)) \<longrightarrow>
         m = []))"
proof -
  let ?tr = "fst (main relaunch relaunchApp w)"
  have calc: "truthy_bool (autoConfigureMemory w)" if g: "GetNodeMemoryArgs \<in> set ?tr"
  proof -
    from main_events [OF g]
    have "GetNodeMemoryArgs \<in> set (fst (relaunch_stage relaunch relaunchApp w))"
      by (auto dest: flag_guard_events configure_events dispatch_events)
    then show ?thesis by (rule relaunch_stage_calculator)
  qed
  have sandbox: "m = memoryArgs w" if "StartSandbox m a \<in> set ?tr" for m a
    using main_launch [OF that] by simp
  have plain: "m = memoryArgs w" if "RelaunchAppInChildProcess m a \<in> set ?tr" for m a
    using main_launch [OF that] by simp
  have off: "memoryArgs w = []" if "\<not> truthy_bool (autoConfigureMemory w)"
    using that by (simp add: memoryArgs_def)
  from calc sandbox plain off show ?thesis by metis
qed

subsection \<open>The sandbox branch and the plain relaunch\<close>

lemma startup_not_launch: "startup_event e \<Longrightarrow> \<not> is_child_launch e"
  by (cases e; simp)

lemma memoryArgs_events_not_launch: "e \<in> set (memoryArgs_events w) \<Longrightarrow> \<not> is_child_launch e"
  by (auto simp: memoryArgs_events_def split: if_splits)

lemma is_StartSandbox_launch: "is_StartSandbox e \<Longrightarrow> is_child_launch e"
  by (cases e; simp)

text \<open>The trace up to the point where the sandbox configuration has been found.\<close>

lemma sandbox_prefix_quiet:
  "e \<in> set (fst (flag_guard w) @ fst (configure w) @ memoryArgs_events w @
             [LoadSandboxConfig, LoadPartialCliConfig]) \<Longrightarrow>
   \<not> is_child_launch e \<and> \<not> dispatch_event e"
proof -
  assume "e \<in> set (fst (flag_guard w) @ fst (configure w) @ memoryArgs_events w @
             [LoadSandboxConfig, LoadPartialCliConfig])"
  then consider "startup_event e" | "e \<in> set (memoryArgs_events w)"
    | "e = LoadSandboxConfig" | "e = LoadPartialCliConfig"
    by (auto dest: flag_guard_events configure_events)
  then show ?thesis
  proof cases
    case 1
    then show ?thesis by (cases e; simp)
  next
    case 2
    then show ?thesis by (auto simp: memoryArgs_events_def split: if_splits)
  qed simp_all
qed

lemma pre_dispatch_sandbox:
  assumes guard: "\<not> (truthy (argv_promptInteractive w) \<and> \<not> stdin_isTTY w)"
    and outside: "\<not> truthy (env_SANDBOX w)" and cfg: "loadSandboxConfig w = Some cfg"
  shows "pre_dispatch relaunch relaunchApp w =
     andThen (fst (flag_guard w) @ fst (configure w) @ memoryArgs_events w @
              [LoadSandboxConfig, LoadPartialCliConfig], None)
       (andThen (authenticate w) (enter_sandbox relaunch w))"
  using guard
  by (simp add: pre_dispatch_passed relaunch_stage_sandbox [OF outside cfg] fst_andThen snd_andThen)

lemma pre_dispatch_plain:
  assumes guard: "\<not> (truthy (argv_promptInteractive w) \<and> \<not> stdin_isTTY w)"
    and outside: "\<not> truthy (env_SANDBOX w)" and cfg: "loadSandboxConfig w = None"
  shows "pre_dispatch relaunch relaunchApp w =
     (fst (flag_guard w) @ fst (configure w) @ memoryArgs_events w @
        [LoadSandboxConfig, RelaunchAppInChildProcess (memoryArgs w) []],
      case relaunchApp (memoryArgs w) [] of
        Returns \<Rightarrow> None | Exits status \<Rightarrow> Some (Exit status) | Never \<Rightarrow> Some Hang)"
  using guard
  by (simp add: pre_dispatch_passed relaunch_stage_plain [OF outside cfg])

lemma pre_dispatch_inside:
  assumes guard: "\<not> (truthy (argv_promptInteractive w) \<and> \<not> stdin_isTTY w)"
    and inside: "truthy (env_SANDBOX w)"
  shows "pre_dispatch relaunch relaunchApp w = (fst (flag_guard w) @ fst (configure w), None)"
  using guard by (simp add: pre_dispatch_passed relaunch_stage_inside [OF inside])

text \<open>The three ways through the sandbox branch.\<close>

lemma main_sandbox_entered:
  assumes guard: "\<not> (truthy (argv_promptInteractive w) \<and> \<not> stdin_isTTY w)"
    and outside: "\<not> truthy (env_SANDBOX w)" and cfg: "loadSandboxConfig w = Some cfg"
    and auth: "authenticate w = (es, None)"
  shows "main relaunch relaunchApp w =
     (fst (flag_guard w) @ fst (configure w) @ memoryArgs_events w @
        [LoadSandboxConfig, LoadPartialCliConfig] @ es @
        (if \<not> stdin_isTTY w then [ReadStdin] else []) @
        [StartSandbox (memoryArgs w) (sandboxArgs w)],
      case relaunch (start_sandbox w) of
        Returns \<Rightarrow> Exit 0 | Exits status \<Rightarrow> Exit status | Never \<Rightarrow> Hang)"
proof -
  have "pre_dispatch relaunch relaunchApp w =
     (fst (flag_guard w) @ fst (configure w) @ memoryArgs_events w @
        [LoadSandboxConfig, LoadPartialCliConfig] @ es @
        (if \<not> stdin_isTTY w then [ReadStdin] else []) @
        [StartSandbox (memoryArgs w) (sandboxArgs w)],
      Some (case relaunch (start_sandbox w) of
        Returns \<Rightarrow> Exit 0 | Exits status \<Rightarrow> Exit status | Never \<Rightarrow> Hang))"
    by (simp add: pre_dispatch_sandbox [OF guard outside cfg] auth enter_sandbox_shape)
  then show ?thesis by (simp add: main_stopped)
qed

lemma main_sandbox_refused:
  assumes guard: "\<not> (truthy (argv_promptInteractive w) \<and> \<not> stdin_isTTY w)"
    and outside: "\<not> truthy (env_SANDBOX w)" and cfg: "loadSandboxConfig w = Some cfg"
    and auth: "authenticate w = (es, Some out)"
  shows "main relaunch relaunchApp w =
     (fst (flag_guard w) @ fst (configure w) @ memoryArgs_events w @
        [LoadSandboxConfig, LoadPartialCliConfig] @ es, out)"
proof -
  have "pre_dispatch relaunch relaunchApp w =
     (fst (flag_guard w) @ fst (configure w) @ memoryArgs_events w @
        [LoadSandboxConfig, LoadPartialCliConfig] @ es, Some out)"
    by (simp add: pre_dispatch_sandbox [OF guard outside cfg] auth)
  then show ?thesis by (simp add: main_stopped)
qed

lemma main_plain:
  assumes guard: "\<not> (truthy (argv_promptInteractive w) \<and> \<not> stdin_isTTY w)"
    and outside: "\<not> truthy (env_SANDBOX w)" and cfg: "loadSandboxConfig w = None"
    and app: "relaunchApp (memoryArgs w) [] \<noteq> Returns"
  shows "main relaunch relaunchApp w =
     (fst (flag_guard w) @ fst (configure w) @ memoryArgs_events w @
        [LoadSandboxConfig, RelaunchAppInChildProcess (memoryArgs w) []],
      case relaunchApp (memoryArgs w) [] of
        Returns \<Rightarrow> Returned | Exits status \<Rightarrow> Exit status | Never \<Rightarrow> Hang)"
proof -
  from app have "snd (pre_dispatch relaunch relaunchApp w) =
      Some (case relaunchApp (memoryArgs w) [] of
        Returns \<Rightarrow> Returned | Exits status \<Rightarrow> Exit status | Never \<Rightarrow> Hang)"
    by (simp add: pre_dispatch_plain [OF guard outside cfg] split: call_result.splits)
  from main_stopped [OF this] show ?thesis
    by (simp add: pre_dispatch_plain [OF guard outside cfg])
qed

lemma protocol_result_not_Returns: "protocol_result r \<noteq> Returns"
  by (simp add: protocol_result_def split: option.split prod.split)

lemma protocol_result_outcome:
  "(case protocol_result r of Returns \<Rightarrow> Exit 0 | Exits status \<Rightarrow> Exit status | Never \<Rightarrow> Hang) =
   (case r of Some (spawns, status) \<Rightarrow> Exit status | None \<Rightarrow> Hang)"
  by (simp add: protocol_result_def split: option.split prod.split)

lemma protocol_result_outcome':
  "(case protocol_result r of Returns \<Rightarrow> Returned | Exits status \<Rightarrow> Exit status | Never \<Rightarrow> Hang) =
   (case r of Some (spawns, status) \<Rightarrow> Exit status | None \<Rightarrow> Hang)"
  by (simp add: protocol_result_def split: option.split prod.split)

lemma authenticate_result:
  "(truthy (auth_selectedType w) \<and> \<not> truthy_bool (auth_useExternal w) \<and>
      (truthy (validateAuthMethod w) \<or> refreshAuth w \<noteq> None) \<longrightarrow>
      (\<exists>es. authenticate w = (es @ [ConsoleError auth_error_message], Some (Exit 1)) \<and>
            (\<forall>e\<in>set es. \<not> is_child_launch e \<and> \<not> dispatch_event e))) \<and>
   (\<not> (truthy (auth_selectedType w) \<and> \<not> truthy_bool (auth_useExternal w) \<and>
      (truthy (validateAuthMethod w) \<or> refreshAuth w \<noteq> None)) \<longrightarrow>
      (\<exists>es. authenticate w = (es, None) \<and>
            (\<forall>e\<in>set es. \<not> is_child_launch e \<and> \<not> dispatch_event e)))"
  by (cases "auth_selectedType w"; cases "refreshAuth w")
    (auto simp: authenticate_def cont_def stop_def)

lemma authenticate_refused:
  "auth_refused w \<Longrightarrow>
   \<exists>es. authenticate w = (es @ [ConsoleError auth_error_message], Some (Exit 1)) \<and>
        (\<forall>e\<in>set es. \<not> is_child_launch e \<and> \<not> dispatch_event e)"
  using authenticate_result [of w] by (simp add: auth_refused_def)

lemma authenticate_accepted:
  "\<not> auth_refused w \<Longrightarrow>
   \<exists>es. authenticate w = (es, None) \<and> (\<forall>e\<in>set es. \<not> is_child_launch e \<and> \<not> dispatch_event e)"
  using authenticate_result [of w] by (simp add: auth_refused_def)

lemma main_stopped_quiet:
  "snd (pre_dispatch relaunch relaunchApp w) = Some out \<Longrightarrow>
   e \<in> set (fst (main relaunch relaunchApp w)) \<Longrightarrow> \<not> dispatch_event e"
  by (simp add: main_stopped pre_dispatch_no_dispatch_event)

lemma sandbox_branch_stops:
  assumes guard: "\<not> (truthy (argv_promptInteractive w) \<and> \<not> stdin_isTTY w)"
    and outside: "\<not> truthy (env_SANDBOX w)" and cfg: "loadSandboxConfig w = Some cfg"
  shows "\<exists>out. snd (pre_dispatch relaunch relaunchApp w) = Some out"
  by (simp add: pre_dispatch_sandbox [OF guard outside cfg] snd_andThen enter_sandbox_shape)

lemma sandbox_branch_refused:
  assumes guard: "\<not> (truthy (argv_promptInteractive w) \<and> \<not> stdin_isTTY w)"
    and outside: "\<not> truthy (env_SANDBOX w)" and cfg: "loadSandboxConfig w = Some cfg"
    and refused: "auth_refused w"
  shows "snd (main relaunch relaunchApp w) = Exit 1 \<and>
         last (fst (main relaunch relaunchApp w)) = ConsoleError auth_error_message \<and>
         (\<forall>e\<in>set (fst (main relaunch relaunchApp w)). \<not> is_child_launch e)"
proof -
  from authenticate_refused [OF refused] obtain es
    where auth: "authenticate w = (es @ [ConsoleError auth_error_message], Some (Exit 1))"
      and es: "\<forall>e\<in>set es. \<not> is_child_launch e \<and> \<not> dispatch_event e"
    by blast
  note m = main_sandbox_refused [OF guard outside cfg auth, of relaunch relaunchApp]
  have "\<not> is_child_launch e" if "e \<in> set (fst (main relaunch relaunchApp w))" for e
  proof -
    from that m have "e \<in> set (fst (flag_guard w) @ fst (configure w) @ memoryArgs_events w @
             [LoadSandboxConfig, LoadPartialCliConfig]) \<or> e \<in> set es \<or>
             e = ConsoleError auth_error_message"
      by auto
    then show ?thesis
    proof (elim disjE)
      assume "e \<in> set (fst (flag_guard w) @ fst (configure w) @ memoryArgs_events w @
             [LoadSandboxConfig, LoadPartialCliConfig])"
      from sandbox_prefix_quiet [OF this] show ?thesis by simp
    next
      assume "e \<in> set es"
      with es show ?thesis by simp
    next
      assume "e = ConsoleError auth_error_message"
      then show ?thesis by simp
    qed
  qed
  with m show ?thesis by simp
qed

lemma sandbox_branch_entered:
  assumes guard: "\<not> (truthy (argv_promptInteractive w) \<and> \<not> stdin_isTTY w)"
    and outside: "\<not> truthy (env_SANDBOX w)" and cfg: "loadSandboxConfig w = Some cfg"
    and accepted: "\<not> auth_refused w"
  shows "snd (main relaunch relaunchApp w) =
           (case relaunch (start_sandbox w) of
              Returns \<Rightarrow> Exit 0 | Exits status \<Rightarrow> Exit status | Never \<Rightarrow> Hang) \<and>
         last (fst (main relaunch relaunchApp w)) = StartSandbox (memoryArgs w) (sandboxArgs w)"
proof -
  from authenticate_accepted [OF accepted] obtain es where auth: "authenticate w = (es, None)"
    by blast
  from main_sandbox_entered [OF guard outside cfg auth, of relaunch relaunchApp]
  show ?thesis by simp
qed

lemma plain_branch:
  assumes guard: "\<not> (truthy (argv_promptInteractive w) \<and> \<not> stdin_isTTY w)"
    and outside: "\<not> truthy (env_SANDBOX w)" and cfg: "loadSandboxConfig w = None"
    and app: "relaunchApp (memoryArgs w) [] \<noteq> Returns"
  shows "snd (main relaunch relaunchApp w) =
           (case relaunchApp (memoryArgs w) [] of
              Returns \<Rightarrow> Returned | Exits status \<Rightarrow> Exit status | Never \<Rightarrow> Hang) \<and>
         last (fst (main relaunch relaunchApp w)) = RelaunchAppInChildProcess (memoryArgs w) [] \<and>
         (\<exists>out. snd (pre_dispatch relaunch relaunchApp w) = Some out)"
proof -
  from app have "\<exists>out. snd (pre_dispatch relaunch relaunchApp w) = Some out"
    by (simp add: pre_dispatch_plain [OF guard outside cfg] split: call_result.splits)
  with main_plain [where relaunchApp = relaunchApp and relaunch = relaunch, OF guard outside cfg app]
  show ?thesis by simp
qed

text \<open>
  C1 (as amended). Take a process start that passes the flag guard with the \<^verbatim>\<open>SANDBOX\<close>
  marker absent or empty, whatever the helpers of \<^verbatim>\<open>./utils/relaunch.js\<close> do.
  With a sandbox configured no event of mode dispatch occurs, and the run ends in one of these
  ways: when the authentication is refused, with exit status 1, the error message last and no
  child launched; otherwise with the entry into the sandbox as the last event, and with the
  status the relaunch protocol ends the process with, or never when the protocol never
  completes, or with exit status 0 when the protocol returns.
  With no sandbox configured, and provided the plain relaunch helper does not return to
  \<^verbatim>\<open>main\<close>, no event of mode dispatch occurs, the call of the helper is the last event, and
  the run ends with the status the helper ends the process with, or never.
  With the helpers as the spec describes them the proviso holds (the plain relaunch never
  returns), no event of mode dispatch occurs in either branch, and the status is the one the
  relaunch protocol propagates from the first child that does not exit with the sentinel.
\<close>

theorem relaunch_never_falls_through:
  "\<not> (truthy (argv_promptInteractive w) \<and> \<not> stdin_isTTY w) \<and> \<not> truthy (env_SANDBOX w) \<longrightarrow>
   (loadSandboxConfig w \<noteq> None \<longrightarrow>
      (\<forall>e\<in>set (fst (main relaunch relaunchApp w)). \<not> dispatch_event e)) \<and>
   (loadSandboxConfig w \<noteq> None \<and> auth_refused w \<longrightarrow>
      snd (main relaunch relaunchApp w) = Exit 1 \<and>
      last (fst (main relaunch relaunchApp w)) = ConsoleError auth_error_message \<and>
      (\<forall>e\<in>set (fst (main relaunch relaunchApp w)). \<not> is_child_launch e)) \<and>
   (loadSandboxConfig w \<noteq> None \<and> \<not> auth_refused w \<longrightarrow>
      last (fst (main relaunch relaunchApp w)) = StartSandbox (memoryArgs w) (sandboxArgs w) \<and>
      snd (main relaunch relaunchApp w) =
        (case relaunch (start_sandbox w) of
           Returns \<Rightarrow> Exit 0 | Exits status \<Rightarrow> Exit status | Never \<Rightarrow> Hang)) \<and>
   (loadSandboxConfig w \<noteq> None \<and> \<not> auth_refused w \<and> relaunch (start_sandbox w) = Returns \<longrightarrow>
      snd (main relaunch relaunchApp w) = Exit 0 \<and>
      last (fst (main relaunch relaunchApp w)) = StartSandbox (memoryArgs w) (sandboxArgs w) \<and>
      (\<forall>e\<in>set (fst (main relaunch relaunchApp w)). \<not> dispatch_event e)) \<and>
   (loadSandboxConfig w = None \<and> relaunchApp (memoryArgs w) [] \<noteq> Returns \<longrightarrow>
      (\<forall>e\<in>set (fst (main relaunch relaunchApp w)). \<not> dispatch_event e) \<and>
      last (fst (main relaunch relaunchApp w)) = RelaunchAppInChildProcess (memoryArgs w) [] \<and>
      (\<forall>status. relaunchApp (memoryArgs w) [] = Exits status \<longrightarrow>
         snd (main relaunch relaunchApp w) = Exit status) \<and>
      (relaunchApp (memoryArgs w) [] = Never \<longrightarrow> snd (main relaunch relaunchApp w) = Hang)) \<and>
   protocol_result (relaunchAppInChildProcess sentinel spawn_child (memoryArgs w) []) \<noteq> Returns \<and>
   (\<forall>e\<in>set (fst (main_with_protocol sentinel spawn_child w)). \<not> dispatch_event e) \<and>
   (loadSandboxConfig w \<noteq> None \<and> auth_refused w \<longrightarrow>
      snd (main_with_protocol sentinel spawn_child w) = Exit 1 \<and>
      last (fst (main_with_protocol sentinel spawn_child w)) = ConsoleError auth_error_message \<and>
      (\<forall>e\<in>set (fst (main_with_protocol sentinel spawn_child w)). \<not> is_child_launch e)) \<and>
   (loadSandboxConfig w \<noteq> None \<and> \<not> auth_refused w \<longrightarrow>
      last (fst (main_with_protocol sentinel spawn_child w)) =
        StartSandbox (memoryArgs w) (sandboxArgs w) \<and>
      snd (main_with_protocol sentinel spawn_child w) =
        (case relaunchOnExitCode sentinel (start_sandbox w) of
           Some (spawns, status) \<Rightarrow> Exit status | None \<Rightarrow> Hang)) \<and>
   (loadSandboxConfig w = None \<longrightarrow>
      last (fst (main_with_protocol sentinel spawn_child w)) =
        RelaunchAppInChildProcess (memoryArgs w) [] \<and>
      snd (main_with_protocol sentinel spawn_child w) =
        (case relaunchAppInChildProcess sentinel spawn_child (memoryArgs w) [] of
           Some (spawns, status) \<Rightarrow> Exit status | None \<Rightarrow> Hang))"
proof (intro impI)
  assume "\<not> (truthy (argv_promptInteractive w) \<and> \<not> stdin_isTTY w) \<and> \<not> truthy (env_SANDBOX w)"
  then have guard: "\<not> (truthy (argv_promptInteractive w) \<and> \<not> stdin_isTTY w)"
    and outside: "\<not> truthy (env_SANDBOX w)"
    by simp_all
  let ?r = "\<lambda>launcher. protocol_result (relaunchOnExitCode sentinel launcher)"
  let ?a = "\<lambda>nodeArgs scriptArgs.
             protocol_result (relaunchAppInChildProcess sentinel spawn_child nodeArgs scriptArgs)"
  have M: "main_with_protocol sentinel spawn_child w = main ?r ?a w"
    by (simp add: main_with_protocol_def)
  have app: "?a (memoryArgs w) [] \<noteq> Returns"
    by (rule protocol_result_not_Returns)
  have quiet_sandbox: "\<forall>e\<in>set (fst (main r a w)). \<not> dispatch_event e"
    if "loadSandboxConfig w \<noteq> None" for r a
  proof -
    from that obtain cfg where cfg: "loadSandboxConfig w = Some cfg" by auto
    from sandbox_branch_stops [OF guard outside cfg, of r a] show ?thesis
      by (blast dest: main_stopped_quiet)
  qed
  have refused: "snd (main r a w) = Exit 1 \<and>
      last (fst (main r a w)) = ConsoleError auth_error_message \<and>
      (\<forall>e\<in>set (fst (main r a w)). \<not> is_child_launch e)"
    if "loadSandboxConfig w \<noteq> None \<and> auth_refused w" for r a
  proof -
    from that obtain cfg where cfg: "loadSandboxConfig w = Some cfg" and ref: "auth_refused w"
      by auto
    from sandbox_branch_refused [OF guard outside cfg ref] show ?thesis .
  qed
  have entered: "last (fst (main r a w)) = StartSandbox (memoryArgs w) (sandboxArgs w) \<and>
      snd (main r a w) =
        (case r (start_sandbox w) of
           Returns \<Rightarrow> Exit 0 | Exits status \<Rightarrow> Exit status | Never \<Rightarrow> Hang)"
    if "loadSandboxConfig w \<noteq> None \<and> \<not> auth_refused w" for r a
  proof -
    from that obtain cfg where cfg: "loadSandboxConfig w = Some cfg" and acc: "\<not> auth_refused w"
      by auto
    from sandbox_branch_entered [OF guard outside cfg acc, of r a] show ?thesis by simp
  qed
  have returns: "snd (main relaunch relaunchApp w) = Exit 0 \<and>
      last (fst (main relaunch relaunchApp w)) = StartSandbox (memoryArgs w) (sandboxArgs w) \<and>
      (\<forall>e\<in>set (fst (main relaunch relaunchApp w)). \<not> dispatch_event e)"
    if "loadSandboxConfig w \<noteq> None \<and> \<not> auth_refused w \<and> relaunch (start_sandbox w) = Returns"
    using that entered [of relaunch relaunchApp] quiet_sandbox [of relaunch relaunchApp]
    by simp
  have plain: "(\<forall>e\<in>set (fst (main r a w)). \<not> dispatch_event e) \<and>
      last (fst (main r a w)) = RelaunchAppInChildProcess (memoryArgs w) [] \<and>
      snd (main r a w) =
        (case a (memoryArgs w) [] of
           Returns \<Rightarrow> Returned | Exits status \<Rightarrow> Exit status | Never \<Rightarrow> Hang)"
    if "loadSandboxConfig w = None \<and> a (memoryArgs w) [] \<noteq> Returns" for r a
  proof -
    from that have cfg: "loadSandboxConfig w = None" and na: "a (memoryArgs w) [] \<noteq> Returns"
      by simp_all
    note b = plain_branch [where relaunchApp = a and relaunch = r, OF guard outside cfg na]
    then have "\<forall>e\<in>set (fst (main r a w)). \<not> dispatch_event e"
      by (blast dest: main_stopped_quiet)
    with b show ?thesis by simp
  qed
  have plain_general: "(\<forall>e\<in>set (fst (main relaunch relaunchApp w)). \<not> dispatch_event e) \<and>
      last (fst (main relaunch relaunchApp w)) = RelaunchAppInChildProcess (memoryArgs w) [] \<and>
      (\<forall>status. relaunchApp (memoryArgs w) [] = Exits status \<longrightarrow>
         snd (main relaunch relaunchApp w) = Exit status) \<and>
      (relaunchApp (memoryArgs w) [] = Never \<longrightarrow> snd (main relaunch relaunchApp w) = Hang)"
    if "loadSandboxConfig w = None \<and> relaunchApp (memoryArgs w) [] \<noteq> Returns"
    using plain [of relaunchApp relaunch, OF that] by simp
  have quiet_spec: "\<forall>e\<in>set (fst (main_with_protocol sentinel spawn_child w)). \<not> dispatch_event e"
  proof (cases "loadSandboxConfig w")
    case None
    with plain [of ?a ?r] app show ?thesis unfolding M by blast
  next
    case (Some cfg)
    with quiet_sandbox [of ?r ?a] show ?thesis unfolding M by simp
  qed
  have refused_spec: "snd (main_with_protocol sentinel spawn_child w) = Exit 1 \<and>
      last (fst (main_with_protocol sentinel spawn_child w)) = ConsoleError auth_error_message \<and>
      (\<forall>e\<in>set (fst (main_with_protocol sentinel spawn_child w)). \<not> is_child_launch e)"
    if "loadSandboxConfig w \<noteq> None \<and> auth_refused w"
    using refused [of ?r ?a, OF that] unfolding M .
  have entered_spec: "last (fst (main_with_protocol sentinel spawn_child w)) =
        StartSandbox (memoryArgs w) (sandboxArgs w) \<and>
      snd (main_with_protocol sentinel spawn_child w) =
        (case relaunchOnExitCode sentinel (start_sandbox w) of
           Some (spawns, status) \<Rightarrow> Exit status | None \<Rightarrow> Hang)"
    if "loadSandboxConfig w \<noteq> None \<and> \<not> auth_refused w"
    using entered [of ?r ?a, OF that] unfolding M by (simp add: protocol_result_outcome)
  have plain_spec: "last (fst (main_with_protocol sentinel spawn_child w)) =
        RelaunchAppInChildProcess (memoryArgs w) [] \<and>
      snd (main_with_protocol sentinel spawn_child w) =
        (case relaunchAppInChildProcess sentinel spawn_child (memoryArgs w) [] of
           Some (spawns, status) \<Rightarrow> Exit status | None \<Rightarrow> Hang)"
    if "loadSandboxConfig w = None"
    using plain [of ?a ?r] that app unfolding M by (simp add: protocol_result_outcome')
  show "(loadSandboxConfig w \<noteq> None \<longrightarrow>
      (\<forall>e\<in>set (fst (main relaunch relaunchApp w)). \<not> dispatch_event e)) \<and>
   (loadSandboxConfig w \<noteq> None \<and> auth_refused w \<longrightarrow>
      snd (main relaunch relaunchApp w) = Exit 1 \<and>
      last (fst (main relaunch relaunchApp w)) = ConsoleError auth_error_message \<and>
      (\<forall>e\<in>set (fst (main relaunch relaunchApp w)). \<not> is_child_launch e)) \<and>
   (loadSandboxConfig w \<noteq> None \<and> \<not> auth_refused w \<longrightarrow>
      last (fst (main relaunch relaunchApp w)) = StartSandbox (memoryArgs w) (sandboxArgs w) \<and>
      snd (main relaunch relaunchApp w) =
        (case relaunch (start_sandbox w) of
           Returns \<Rightarrow> Exit 0 | Exits status \<Rightarrow> Exit status | Never \<Rightarrow> Hang)) \<and>
   (loadSandboxConfig w \<noteq> None \<and> \<not> auth_refused w \<and> relaunch (start_sandbox w) = Returns \<longrightarrow>
      snd (main relaunch relaunchApp w) = Exit 0 \<and>
      last (fst (main relaunch relaunchApp w)) = StartSandbox (memoryArgs w) (sandboxArgs w) \<and>
      (\<forall>e\<in>set (fst (main relaunch relaunchApp w)). \<not> dispatch_event e)) \<and>
   (loadSandboxConfig w = None \<and> relaunchApp (memoryArgs w) [] \<noteq> Returns \<longrightarrow>
      (\<forall>e\<in>set (fst (main relaunch relaunchApp w)). \<not> dispatch_event e) \<and>
      last (fst (main relaunch relaunchApp w)) = RelaunchAppInChildProcess (memoryArgs w) [] \<and>
      (\<forall>status. relaunchApp (memoryArgs w) [] = Exits status \<longrightarrow>
         snd (main relaunch relaunchApp w) = Exit status) \<and>
      (relaunchApp (memoryArgs w) [] = Never \<longrightarrow> snd (main relaunch relaunchApp w) = Hang)) \<and>
   protocol_result (relaunchAppInChildProcess sentinel spawn_child (memoryArgs w) []) \<noteq> Returns \<and>
   (\<forall>e\<in>set (fst (main_with_protocol sentinel spawn_child w)). \<not> dispatch_event e) \<and>
   (loadSandboxConfig w \<noteq> None \<and> auth_refused w \<longrightarrow>
      snd (main_with_protocol sentinel spawn_child w) = Exit 1 \<and>
      last (fst (main_with_protocol sentinel spawn_child w)) = ConsoleError auth_error_message \<and>
      (\<forall>e\<in>set (fst (main_with_protocol sentinel spawn_child w)). \<not> is_child_launch e)) \<and>
   (loadSandboxConfig w \<noteq> None \<and> \<not> auth_refused w \<longrightarrow>
      last (fst (main_with_protocol sentinel spawn_child w)) =
        StartSandbox (memoryArgs w) (sandboxArgs w) \<and>
      snd (main_with_protocol sentinel spawn_child w) =
        (case relaunchOnExitCode sentinel (start_sandbox w) of
           Some (spawns, status) \<Rightarrow> Exit status | None \<Rightarrow> Hang)) \<and>
   (loadSandboxConfig w = None \<longrightarrow>
      last (fst (main_with_protocol sentinel spawn_child w)) =
        RelaunchAppInChildProcess (memoryArgs w) [] \<and>
      snd (main_with_protocol sentinel spawn_child w) =
        (case relaunchAppInChildProcess sentinel spawn_child (memoryArgs w) [] of
           Some (spawns, status) \<Rightarrow> Exit status | None \<Rightarrow> Hang))"
    using quiet_sandbox [of relaunch relaunchApp] refused [of relaunch relaunchApp]
      entered [of relaunch relaunchApp] returns plain_general app quiet_spec refused_spec
      entered_spec plain_spec
    by (intro conjI impI) blast+
qed

lemma loaded_sandbox_config:
  assumes l: "LoadSandboxConfig \<in> set (fst (main relaunch relaunchApp w))"
  shows "\<not> (truthy (argv_promptInteractive w) \<and> \<not> stdin_isTTY w) \<and> \<not> truthy (env_SANDBOX w)"
proof -
  from main_events [OF l]
  have r: "LoadSandboxConfig \<in> set (fst (relaunch_stage relaunch relaunchApp w))"
    by (auto dest: flag_guard_events configure_events dispatch_events)
  then have outside: "\<not> truthy (env_SANDBOX w)"
    by (auto simp: relaunch_stage_inside)
  have "\<not> (truthy (argv_promptInteractive w) \<and> \<not> stdin_isTTY w)"
  proof
    assume "truthy (argv_promptInteractive w) \<and> \<not> stdin_isTTY w"
    from pre_dispatch_stopped [OF this, of relaunch relaunchApp] l show False
      by (simp add: fst_main)
  qed
  with outside show ?thesis by simp
qed

lemma sandbox_prefix_no_StartSandbox:
  "\<forall>e\<in>set (fst (flag_guard w) @ fst (configure w) @ memoryArgs_events w @
             [LoadSandboxConfig, LoadPartialCliConfig]). \<not> is_StartSandbox e"
  using sandbox_prefix_quiet is_StartSandbox_launch by blast

text \<open>
  C5. In a run that has loaded the sandbox configuration and found one, with an
  authentication method selected and not delegated externally: the method is validated;
  every entry into the sandbox comes after the validation and after the refresh; when the
  validator returns an error or the refresh rejects, the process exits with status 1, the
  error message is the last event and the sandbox is never entered; otherwise the run goes on
  to enter the sandbox.
\<close>

theorem auth_precedes_sandbox:
  "LoadSandboxConfig \<in> set (fst (main relaunch relaunchApp w)) \<and> loadSandboxConfig w = Some cfg \<and>
   auth_selectedType w = Some t \<and> t \<noteq> [] \<and> \<not> truthy_bool (auth_useExternal w) \<longrightarrow>
   ValidateAuthMethod t \<in> set (fst (main relaunch relaunchApp w)) \<and>
   (\<forall>pre e post. fst (main relaunch relaunchApp w) = pre @ e # post \<and> is_StartSandbox e \<longrightarrow>
      ValidateAuthMethod t \<in> set pre \<and> RefreshAuth t \<in> set pre) \<and>
   (truthy (validateAuthMethod w) \<or> refreshAuth w \<noteq> None \<longrightarrow>
      snd (main relaunch relaunchApp w) = Exit 1 \<and>
      last (fst (main relaunch relaunchApp w)) = ConsoleError auth_error_message \<and>
      (\<forall>e\<in>set (fst (main relaunch relaunchApp w)). \<not> is_StartSandbox e)) \<and>
   (\<not> truthy (validateAuthMethod w) \<and> refreshAuth w = None \<longrightarrow>
      last (fst (main relaunch relaunchApp w)) = StartSandbox (memoryArgs w) (sandboxArgs w))"
proof (intro impI)
  assume h: "LoadSandboxConfig \<in> set (fst (main relaunch relaunchApp w)) \<and>
    loadSandboxConfig w = Some cfg \<and> auth_selectedType w = Some t \<and> t \<noteq> [] \<and>
    \<not> truthy_bool (auth_useExternal w)"
  then have cfg: "loadSandboxConfig w = Some cfg" and sel: "auth_selectedType w = Some t"
    and t: "t \<noteq> []" and ext: "\<not> truthy_bool (auth_useExternal w)"
    by simp_all
  from h loaded_sandbox_config [of relaunch relaunchApp w]
  have guard: "\<not> (truthy (argv_promptInteractive w) \<and> \<not> stdin_isTTY w)"
    and outside: "\<not> truthy (env_SANDBOX w)"
    by simp_all
  let ?tr = "fst (main relaunch relaunchApp w)"
  let ?P = "fst (flag_guard w) @ fst (configure w) @ memoryArgs_events w @
             [LoadSandboxConfig, LoadPartialCliConfig]"
  note quiet = sandbox_prefix_no_StartSandbox [of w]
  have shape: "\<exists>rest. ?tr = ?P @ ValidateAuthMethod t # rest \<and>
      precedes (\<lambda>e. e = ValidateAuthMethod t) is_StartSandbox (ValidateAuthMethod t # rest) \<and>
      precedes (\<lambda>e. e = RefreshAuth t) is_StartSandbox (ValidateAuthMethod t # rest)"
  proof (cases "truthy (validateAuthMethod w)")
    case True
    from main_sandbox_refused [OF guard outside cfg authenticate_invalid [OF sel t ext True],
        of relaunch relaunchApp]
    show ?thesis by simp
  next
    case False
    show ?thesis
    proof (cases "refreshAuth w")
      case (Some reason)
      from main_sandbox_refused [OF guard outside cfg authenticate_rejected [OF sel t ext False Some],
          of relaunch relaunchApp]
      show ?thesis by simp
    next
      case None
      from main_sandbox_entered [OF guard outside cfg authenticate_ok [OF sel t ext False None],
          of relaunch relaunchApp]
      show ?thesis by simp
    qed
  qed
  then obtain rest where tr: "?tr = ?P @ ValidateAuthMethod t # rest"
    and pv: "precedes (\<lambda>e. e = ValidateAuthMethod t) is_StartSandbox (ValidateAuthMethod t # rest)"
    and pr: "precedes (\<lambda>e. e = RefreshAuth t) is_StartSandbox (ValidateAuthMethod t # rest)"
    by blast
  from tr have validated: "ValidateAuthMethod t \<in> set ?tr" by simp
  from pv have "precedes (\<lambda>e. e = ValidateAuthMethod t) is_StartSandbox ?tr"
    unfolding tr by (subst precedes_append [OF quiet]) blast
  moreover from pr have "precedes (\<lambda>e. e = RefreshAuth t) is_StartSandbox ?tr"
    unfolding tr by (subst precedes_append [OF quiet]) blast
  ultimately have before: "\<forall>pre e post. ?tr = pre @ e # post \<and> is_StartSandbox e \<longrightarrow>
      ValidateAuthMethod t \<in> set pre \<and> RefreshAuth t \<in> set pre"
    unfolding precedes_iff by blast
  have refused: "snd (main relaunch relaunchApp w) = Exit 1 \<and>
      last ?tr = ConsoleError auth_error_message \<and> (\<forall>e\<in>set ?tr. \<not> is_StartSandbox e)"
    if "truthy (validateAuthMethod w) \<or> refreshAuth w \<noteq> None"
  proof -
    from that sel t ext have "auth_refused w" by (simp add: auth_refused_def)
    from sandbox_branch_refused [OF guard outside cfg this, of relaunch relaunchApp]
    show ?thesis using is_StartSandbox_launch by blast
  qed
  have entered: "last ?tr = StartSandbox (memoryArgs w) (sandboxArgs w)"
    if "\<not> truthy (validateAuthMethod w) \<and> refreshAuth w = None"
  proof -
    from that have "\<not> auth_refused w" by (simp add: auth_refused_def)
    from sandbox_branch_entered [OF guard outside cfg this, of relaunch relaunchApp]
    show ?thesis by simp
  qed
  from validated before refused entered
  show "ValidateAuthMethod t \<in> set ?tr \<and>
   (\<forall>pre e post. ?tr = pre @ e # post \<and> is_StartSandbox e \<longrightarrow>
      ValidateAuthMethod t \<in> set pre \<and> RefreshAuth t \<in> set pre) \<and>
   (truthy (validateAuthMethod w) \<or> refreshAuth w \<noteq> None \<longrightarrow>
      snd (main relaunch relaunchApp w) = Exit 1 \<and>
      last ?tr = ConsoleError auth_error_message \<and> (\<forall>e\<in>set ?tr. \<not> is_StartSandbox e)) \<and>
   (\<not> truthy (validateAuthMethod w) \<and> refreshAuth w = None \<longrightarrow>
      last ?tr = StartSandbox (memoryArgs w) (sandboxArgs w))"
    by blast
qed

subsection \<open>Mode dispatch\<close>

lemma main_precedes:
  assumes Q: "\<And>e. Q e \<Longrightarrow> dispatch_event e"
    and d: "precedes P Q (fst (dispatch w))"
  shows "precedes P Q (fst (main relaunch relaunchApp w))"
proof -
  have quiet: "\<forall>e\<in>set (fst (pre_dispatch relaunch relaunchApp w)). \<not> Q e"
    using Q pre_dispatch_no_dispatch_event by blast
  show ?thesis
  proof (cases "snd (pre_dispatch relaunch relaunchApp w) = None")
    case True
    with d show ?thesis
      by (simp add: fst_main precedes_append [OF quiet])
  next
    case False
    then obtain out where "snd (pre_dispatch relaunch relaunchApp w) = Some out" by auto
    with quiet show ?thesis
      by (simp add: fst_main precedes_none)
  qed
qed

lemma precedes_log:
  "(\<And>s. \<not> Q (ConsoleLog s)) \<Longrightarrow> precedes P Q (map (\<lambda>name. ConsoleLog (f name)) xs)"
  by (induction xs) auto

lemma dispatch_detection_first:
  "kitty_started w \<Longrightarrow>
   precedes (\<lambda>e. e = DetectAndEnableKittyProtocol)
     (\<lambda>e. e = InitializeApp \<or> e = ConfigInitialize \<or> e = GetStartupWarnings \<or>
          e = GetUserStartupWarnings \<or> e = KittyProtocolDetectionComplete \<or>
          e = StartInteractiveUI)
     (fst (dispatch w))"
  by (simp add: dispatch_def load_config_def raw_mode_def cont_def stop_def precedes_log)

lemma dispatch_await_first:
  "precedes (\<lambda>e. e = KittyProtocolDetectionComplete) (\<lambda>e. e = StartInteractiveUI)
     (fst (dispatch w))"
  by (simp add: dispatch_def load_config_def raw_mode_def initialize_def zed_def
      startupWarnings_def interactive_def non_interactive_def cont_def stop_def precedes_log)

lemma dispatch_unresolved:
  "kitty_started w \<Longrightarrow> detectAndEnableKittyProtocol w = None \<Longrightarrow>
   StartInteractiveUI \<notin> set (fst (dispatch w))"
  by (auto simp: dispatch_def load_config_def raw_mode_def initialize_def zed_def
      startupWarnings_def interactive_def non_interactive_def cont_def stop_def kitty_started_def)

lemma main_dispatch_only:
  assumes e: "e \<in> set (fst (main relaunch relaunchApp w))" and d: "dispatch_event e"
  shows "e \<in> set (fst (dispatch w)) \<and> snd (pre_dispatch relaunch relaunchApp w) = None"
  using e d pre_dispatch_no_dispatch_event [of e relaunch relaunchApp w]
  by (auto simp: fst_main split: if_splits)

text \<open>
  C8. In an interactive run on a terminal that is not already in raw mode: the keyboard
  protocol detection is started before the application and the configuration are
  initialised, before the startup warnings are collected, before the \<^verbatim>\<open>await\<close> on its result completes and before the
  interactive UI is started; the UI is started only after that \<^verbatim>\<open>await\<close> has completed;
  and when the detection never resolves the UI is never started.
\<close>

theorem kitty_detection_order:
  "isInteractive w \<and> stdin_isTTY w \<and> \<not> stdin_isRaw w \<longrightarrow>
   (\<forall>pre e post. fst (main relaunch relaunchApp w) = pre @ e # post \<and>
       (e = InitializeApp \<or> e = ConfigInitialize \<or> e = GetStartupWarnings \<or>
        e = GetUserStartupWarnings \<or> e = KittyProtocolDetectionComplete \<or>
        e = StartInteractiveUI) \<longrightarrow>
       DetectAndEnableKittyProtocol \<in> set pre) \<and>
   (\<forall>pre post. fst (main relaunch relaunchApp w) = pre @ StartInteractiveUI # post \<longrightarrow>
       KittyProtocolDetectionComplete \<in> set pre) \<and>
   (detectAndEnableKittyProtocol w = None \<longrightarrow>
       StartInteractiveUI \<notin> set (fst (main relaunch relaunchApp w)))"
proof (intro impI)
  assume "isInteractive w \<and> stdin_isTTY w \<and> \<not> stdin_isRaw w"
  then have started: "kitty_started w" by (simp add: kitty_started_def)
  let ?tr = "fst (main relaunch relaunchApp w)"
  have "precedes (\<lambda>e. e = DetectAndEnableKittyProtocol)
     (\<lambda>e. e = InitializeApp \<or> e = ConfigInitialize \<or> e = GetStartupWarnings \<or>
          e = GetUserStartupWarnings \<or> e = KittyProtocolDetectionComplete \<or>
          e = StartInteractiveUI) ?tr"
    by (rule main_precedes [OF _ dispatch_detection_first [OF started]]) auto
  then have first: "\<forall>pre e post. ?tr = pre @ e # post \<and>
       (e = InitializeApp \<or> e = ConfigInitialize \<or> e = GetStartupWarnings \<or>
        e = GetUserStartupWarnings \<or> e = KittyProtocolDetectionComplete \<or>
        e = StartInteractiveUI) \<longrightarrow>
       DetectAndEnableKittyProtocol \<in> set pre"
    unfolding precedes_iff by blast
  have "precedes (\<lambda>e. e = KittyProtocolDetectionComplete) (\<lambda>e. e = StartInteractiveUI) ?tr"
    by (rule main_precedes [OF _ dispatch_await_first]) auto
  then have await: "\<forall>pre post. ?tr = pre @ StartInteractiveUI # post \<longrightarrow>
       KittyProtocolDetectionComplete \<in> set pre"
    unfolding precedes_iff by blast
  have unresolved: "StartInteractiveUI \<notin> set ?tr" if "detectAndEnableKittyProtocol w = None"
  proof
    assume "StartInteractiveUI \<in> set ?tr"
    from main_dispatch_only [OF this] have "StartInteractiveUI \<in> set (fst (dispatch w))"
      by simp
    with dispatch_unresolved [OF started that] show False by simp
  qed
  from first await unresolved
  show "(\<forall>pre e post. ?tr = pre @ e # post \<and>
       (e = InitializeApp \<or> e = ConfigInitialize \<or> e = GetStartupWarnings \<or>
        e = GetUserStartupWarnings \<or> e = KittyProtocolDetectionComplete \<or>
        e = StartInteractiveUI) \<longrightarrow>
       DetectAndEnableKittyProtocol \<in> set pre) \<and>
   (\<forall>pre post. ?tr = pre @ StartInteractiveUI # post \<longrightarrow>
       KittyProtocolDetectionComplete \<in> set pre) \<and>
   (detectAndEnableKittyProtocol w = None \<longrightarrow> StartInteractiveUI \<notin> set ?tr)"
    by blast
qed

lemma pre_dispatch_continued_no_stdin:
  assumes c: "snd (pre_dispatch relaunch relaunchApp w) = None"
  shows "ReadStdin \<notin> set (fst (pre_dispatch relaunch relaunchApp w))"
proof -
  have guard: "\<not> (truthy (argv_promptInteractive w) \<and> \<not> stdin_isTTY w)"
  proof
    assume "truthy (argv_promptInteractive w) \<and> \<not> stdin_isTTY w"
    from pre_dispatch_stopped [OF this, of relaunch relaunchApp] c show False by simp
  qed
  have startup: "ReadStdin \<notin> set (fst (flag_guard w) @ fst (configure w))"
    by (auto dest: flag_guard_events configure_events)
  show ?thesis
  proof (cases "truthy (env_SANDBOX w)")
    case True
    from pre_dispatch_inside [OF guard True, of relaunch relaunchApp] startup
    show ?thesis by simp
  next
    case False
    show ?thesis
    proof (cases "loadSandboxConfig w")
      case None
      have "ReadStdin \<notin> set (memoryArgs_events w)"
        by (auto simp: memoryArgs_events_def)
      with pre_dispatch_plain [OF guard False None, of relaunch relaunchApp] startup
      show ?thesis by simp
    next
      case (Some cfg)
      from sandbox_branch_stops [OF guard False Some, of relaunch relaunchApp] c
      show ?thesis by simp
    qed
  qed
qed

text \<open>The events of the dispatch block before the non-interactive path.\<close>

lemma dispatch_non_interactive:
  assumes c: "ConfigInitialize \<in> set (fst (dispatch w))"
  shows "\<exists>D. dispatch w = (D @ fst (non_interactive w), snd (non_interactive w)) \<and>
             ReadStdin \<notin> set D \<and> (\<forall>i. RunNonInteractive i \<notin> set D)"
proof -
  have l: "\<not> getListExtensions w"
    using c by (auto simp: dispatch_def load_config_def cont_def stop_def)
  have z: "\<not> getExperimentalZedIntegration w"
    using c l
    by (auto simp: dispatch_def load_config_def raw_mode_def initialize_def zed_def
        cont_def stop_def split: if_splits)
  have i: "\<not> isInteractive w"
    using c l z
    by (auto simp: dispatch_def load_config_def raw_mode_def initialize_def zed_def
        startupWarnings_def interactive_def cont_def stop_def split: if_splits)
  from l z i show ?thesis
    by (simp add: dispatch_def load_config_def raw_mode_def initialize_def zed_def
        startupWarnings_def interactive_def kitty_started_def cont_def stop_def)
qed

lemma non_interactive_shape:
  "non_interactive w =
     (ConfigInitialize # (if \<not> stdin_isTTY w then [ReadStdin] else []) @
      (if merged_input w = [] then [ConsoleError no_input_message]
       else [LogUserPrompt (merged_input w), ValidateNonInteractiveAuth] @
            (if getDebugMode w then [ConsoleLog ''Session ID: %s''] else []) @
            [RunNonInteractive (merged_input w), RunExitCleanup]),
      Some (if merged_input w = [] then Exit 1 else Exit 0))"
  by (simp add: non_interactive_def cont_def stop_def)

text \<open>
  C7 (as amended). In a run that reaches the non-interactive path: standard input is read if
  and only if it is not a terminal, whether or not a prompt was supplied; the input is the
  text read, a blank line and the supplied prompt when the text read is not empty, and the
  supplied prompt otherwise; when the input is empty the process emits the "no input
  provided" message last and exits with status 1 without invoking the one-shot pipeline.
  Whether the pipeline is reached and how it ends is left open; a call of it, if there is
  one, carries this input.
\<close>

theorem non_interactive_input:
  "ConfigInitialize \<in> set (fst (main relaunch relaunchApp w)) \<longrightarrow>
   (ReadStdin \<in> set (fst (main relaunch relaunchApp w)) \<longleftrightarrow> \<not> stdin_isTTY w) \<and>
   merged_input w =
     (if \<not> stdin_isTTY w \<and> readStdin w \<noteq> [] then readStdin w @ [LF, LF] @ getQuestion w
      else getQuestion w) \<and>
   (merged_input w = [] \<longrightarrow>
      snd (main relaunch relaunchApp w) = Exit 1 \<and>
      last (fst (main relaunch relaunchApp w)) = ConsoleError no_input_message \<and>
      (\<forall>i. RunNonInteractive i \<notin> set (fst (main relaunch relaunchApp w)))) \<and>
   (\<forall>i. RunNonInteractive i \<in> set (fst (main relaunch relaunchApp w)) \<longrightarrow>
      i = merged_input w)"
proof (intro impI)
  assume "ConfigInitialize \<in> set (fst (main relaunch relaunchApp w))"
  from main_dispatch_only [OF this]
  have c: "ConfigInitialize \<in> set (fst (dispatch w))"
    and p: "snd (pre_dispatch relaunch relaunchApp w) = None"
    by simp_all
  from dispatch_non_interactive [OF c] obtain D
    where d: "dispatch w = (D @ fst (non_interactive w), snd (non_interactive w))"
      and D: "ReadStdin \<notin> set D" "\<forall>i. RunNonInteractive i \<notin> set D"
    by blast
  let ?pre = "fst (pre_dispatch relaunch relaunchApp w)"
  from main_continued [OF p] d
  have m: "main relaunch relaunchApp w =
      (?pre @ D @ fst (non_interactive w),
       if merged_input w = [] then Exit 1 else Exit 0)"
    by (simp add: finish_def non_interactive_shape)
  have pre_stdin: "ReadStdin \<notin> set ?pre"
    by (rule pre_dispatch_continued_no_stdin [OF p])
  have pre_run: "\<forall>i. RunNonInteractive i \<notin> set ?pre"
    using pre_dispatch_no_dispatch_event [of _ relaunch relaunchApp w] by fastforce
  have stdin: "ReadStdin \<in> set (fst (main relaunch relaunchApp w)) \<longleftrightarrow> \<not> stdin_isTTY w"
    using pre_stdin D(1) by (simp add: m non_interactive_shape)
  have input: "merged_input w =
     (if \<not> stdin_isTTY w \<and> readStdin w \<noteq> [] then readStdin w @ [LF, LF] @ getQuestion w
      else getQuestion w)"
    by (simp add: merged_input_def)
  have empty: "snd (main relaunch relaunchApp w) = Exit 1 \<and>
      last (fst (main relaunch relaunchApp w)) = ConsoleError no_input_message \<and>
      (\<forall>i. RunNonInteractive i \<notin> set (fst (main relaunch relaunchApp w)))"
    if "merged_input w = []"
    using that pre_run D(2) by (simp add: m non_interactive_shape)
  have carried: "\<forall>i. RunNonInteractive i \<in> set (fst (main relaunch relaunchApp w)) \<longrightarrow>
      i = merged_input w"
    using pre_run D(2) by (auto simp: m non_interactive_shape split: if_splits)
  from stdin input empty carried
  show "(ReadStdin \<in> set (fst (main relaunch relaunchApp w)) \<longleftrightarrow> \<not> stdin_isTTY w) \<and>
   merged_input w =
     (if \<not> stdin_isTTY w \<and> readStdin w \<noteq> [] then readStdin w @ [LF, LF] @ getQuestion w
      else getQuestion w) \<and>
   (merged_input w = [] \<longrightarrow>
      snd (main relaunch relaunchApp w) = Exit 1 \<and>
      last (fst (main relaunch relaunchApp w)) = ConsoleError no_input_message \<and>
      (\<forall>i. RunNonInteractive i \<notin> set (fst (main relaunch relaunchApp w)))) \<and>
   (\<forall>i. RunNonInteractive i \<in> set (fst (main relaunch relaunchApp w)) \<longrightarrow>
      i = merged_input w)"
    by blast
qed

subsection \<open>The example runs\<close>

lemmas run_defs = main_def finish_def pre_dispatch_def flag_guard_def configure_def load_themes_def
  relaunch_stage_def memoryArgs_events_def memoryArgs_def authenticate_def enter_sandbox_def
  sandboxArgs_def stdinData_def injectStdinIntoArgs_def dispatch_def load_config_def raw_mode_def
  kitty_started_def initialize_def zed_def startupWarnings_def interactive_def
  non_interactive_def merged_input_def validateDnsResolutionOrder_def defaultValue_def
  cont_def stop_def

lemmas world_defs = example_world_def sandbox_world_def auth_failure_world_def
  piped_interactive_world_def piped_prompt_world_def no_input_world_def interactive_world_def

lemma sandbox_world_run:
  "main relaunch relaunchApp sandbox_world =
     ([SetupUnhandledRejectionHandler, LoadSettings, MigrateDeprecatedSettings,
       CleanupCheckpoints, RandomUUID, ParseArguments, ConsolePatcherPatch, RegisterCleanup,
       DnsSetDefaultResultOrder ''ipv4first'', LoadCustomThemes, LoadSandboxConfig,
       LoadPartialCliConfig, ValidateAuthMethod ''qwen-oauth'', RefreshAuth ''qwen-oauth'',
       StartSandbox [] [''node'', ''qwen'']],
      case relaunch relaunch_twice of
        Returns \<Rightarrow> Exit 0 | Exits status \<Rightarrow> Exit status | Never \<Rightarrow> Hang)"
  by (simp add: run_defs world_defs split: call_result.split)

lemma auth_failure_world_run:
  "main relaunch relaunchApp auth_failure_world =
     ([SetupUnhandledRejectionHandler, LoadSettings, MigrateDeprecatedSettings,
       CleanupCheckpoints, RandomUUID, ParseArguments, ConsolePatcherPatch, RegisterCleanup,
       DnsSetDefaultResultOrder ''ipv4first'', LoadCustomThemes, LoadSandboxConfig,
       LoadPartialCliConfig, ValidateAuthMethod ''qwen-oauth'',
       ConsoleError auth_error_message], Exit 1)"
  by (simp add: run_defs world_defs)

lemma piped_prompt_world_run:
  "main relaunch relaunchApp piped_prompt_world =
     ([SetupUnhandledRejectionHandler, LoadSettings, MigrateDeprecatedSettings,
       CleanupCheckpoints, RandomUUID, ParseArguments, ConsolePatcherPatch, RegisterCleanup,
       DnsSetDefaultResultOrder ''ipv4first'', LoadCustomThemes, LoadExtensions, LoadCliConfig,
       SetMaxSizedBoxDebugging, InitializeApp, GetStartupWarnings, GetUserStartupWarnings,
       ConfigInitialize, ReadStdin, LogUserPrompt (''ctx'' @ [LF, LF] @ ''hi''),
       ValidateNonInteractiveAuth, RunNonInteractive (''ctx'' @ [LF, LF] @ ''hi''),
       RunExitCleanup], Exit 0)"
  by (simp add: run_defs world_defs)

lemma no_input_world_run:
  "main relaunch relaunchApp no_input_world =
     ([SetupUnhandledRejectionHandler, LoadSettings, MigrateDeprecatedSettings,
       CleanupCheckpoints, RandomUUID, ParseArguments, ConsolePatcherPatch, RegisterCleanup,
       DnsSetDefaultResultOrder ''ipv4first'', LoadCustomThemes, LoadExtensions, LoadCliConfig,
       SetMaxSizedBoxDebugging, InitializeApp, GetStartupWarnings, GetUserStartupWarnings,
       ConfigInitialize, ConsoleError no_input_message], Exit 1)"
  by (simp add: run_defs world_defs)

lemma interactive_world_run:
  "main relaunch relaunchApp interactive_world =
     ([SetupUnhandledRejectionHandler, LoadSettings, MigrateDeprecatedSettings,
       CleanupCheckpoints, RandomUUID, ParseArguments, ConsolePatcherPatch, RegisterCleanup,
       DnsSetDefaultResultOrder ''ipv4first'', LoadCustomThemes, LoadExtensions, LoadCliConfig,
       SetRawMode, ProcessOn ''SIGTERM'', ProcessOn ''SIGINT'', DetectAndEnableKittyProtocol,
       SetMaxSizedBoxDebugging, InitializeApp, GetStartupWarnings, GetUserStartupWarnings,
       KittyProtocolDetectionComplete, StartInteractiveUI], Returned)"
  by (simp add: run_defs world_defs)

lemma example_world_run:
  "relaunchApp [] [] = Exits status \<Longrightarrow>
   main relaunch relaunchApp example_world =
     ([SetupUnhandledRejectionHandler, LoadSettings, MigrateDeprecatedSettings,
       CleanupCheckpoints, RandomUUID, ParseArguments, ConsolePatcherPatch, RegisterCleanup,
       DnsSetDefaultResultOrder ''ipv4first'', LoadCustomThemes, LoadSandboxConfig,
       RelaunchAppInChildProcess [] []], Exit status)"
  by (simp add: run_defs world_defs)

lemma relaunch_twice_protocol: "relaunchOnExitCode 42 relaunch_twice = Some (3, 5)"
  by (simp add: relaunchOnExitCode_def relaunch_loop.simps relaunch_twice_def numeral_3_eq_3)

lemma plain_child_protocol: "relaunchAppInChildProcess 42 plain_child [] [] = Some (1, 0)"
  by (simp add: relaunchAppInChildProcess_def relaunchOnExitCode_def relaunch_loop.simps
      plain_child_def)

lemma sandbox_world_facts:
  "\<not> (truthy (argv_promptInteractive sandbox_world) \<and> \<not> stdin_isTTY sandbox_world)"
  "\<not> truthy (env_SANDBOX sandbox_world)"
  "loadSandboxConfig sandbox_world = Some \<lparr> kind = ''docker'', image = ''sandbox'' \<rparr>"
  "\<not> auth_refused sandbox_world"
  "start_sandbox sandbox_world = relaunch_twice"
  "auth_selectedType sandbox_world = Some ''qwen-oauth''"
  "\<not> truthy_bool (auth_useExternal sandbox_world)"
  "\<not> truthy (validateAuthMethod sandbox_world)"
  "refreshAuth sandbox_world = None"
  "memoryArgs sandbox_world = []"
  "sandboxArgs sandbox_world = [''node'', ''qwen'']"
  by (simp_all add: world_defs auth_refused_def memoryArgs_def sandboxArgs_def stdinData_def
      injectStdinIntoArgs_def)

lemma example_world_facts:
  "\<not> (truthy (argv_promptInteractive example_world) \<and> \<not> stdin_isTTY example_world)"
  "\<not> truthy (env_SANDBOX example_world)"
  "loadSandboxConfig example_world = None"
  "\<not> truthy_bool (autoConfigureMemory example_world)"
  "memoryArgs example_world = []"
  by (simp_all add: world_defs memoryArgs_def)

text \<open>
  The sandbox run and the plain relaunch of the example worlds, with the helpers as the spec
  describes them, with a protocol that returns, and with a plain relaunch that ends the
  process with status 3.
\<close>

theorem relaunch_never_falls_through_witness:
  "snd (main_with_protocol 42 plain_child sandbox_world) = Exit 5 \<and>
   last (fst (main_with_protocol 42 plain_child sandbox_world)) =
     StartSandbox [] [''node'', ''qwen''] \<and>
   snd (main returns_at_once app_returns_at_once sandbox_world) = Exit 0 \<and>
   snd (main_with_protocol 42 plain_child example_world) = Exit 0 \<and>
   last (fst (main_with_protocol 42 plain_child example_world)) =
     RelaunchAppInChildProcess [] [] \<and>
   snd (main returns_at_once app_exits_with_3 example_world) = Exit 3 \<and>
   last (fst (main returns_at_once app_exits_with_3 example_world)) =
     RelaunchAppInChildProcess [] []"
proof -
  note s = relaunch_never_falls_through [where w = sandbox_world and sentinel = 42
      and spawn_child = plain_child and relaunch = returns_at_once
      and relaunchApp = app_returns_at_once]
  note e = relaunch_never_falls_through [where w = example_world and sentinel = 42
      and spawn_child = plain_child and relaunch = returns_at_once
      and relaunchApp = app_exits_with_3]
  from s have "snd (main_with_protocol 42 plain_child sandbox_world) = Exit 5 \<and>
   last (fst (main_with_protocol 42 plain_child sandbox_world)) =
     StartSandbox [] [''node'', ''qwen''] \<and>
   snd (main returns_at_once app_returns_at_once sandbox_world) = Exit 0"
    by (simp add: sandbox_world_facts relaunch_twice_protocol returns_at_once_def)
  moreover from e have "snd (main_with_protocol 42 plain_child example_world) = Exit 0 \<and>
   last (fst (main_with_protocol 42 plain_child example_world)) =
     RelaunchAppInChildProcess [] [] \<and>
   snd (main returns_at_once app_exits_with_3 example_world) = Exit 3 \<and>
   last (fst (main returns_at_once app_exits_with_3 example_world)) =
     RelaunchAppInChildProcess [] []"
    by (simp add: example_world_facts plain_child_protocol app_exits_with_3_def)
  ultimately show ?thesis by blast
qed

text \<open>
  C1 as stated fails: with the \<^verbatim>\<open>SANDBOX\<close> marker absent, a sandbox configured and a
  validator that rejects the selected method, the process exits with status 1 before any child
  is launched: it neither propagates a child's exit code nor enters the relaunch protocol.
\<close>

theorem auth_failure_exits_without_child:
  "env_SANDBOX auth_failure_world = None \<and>
   main_with_protocol 42 plain_child auth_failure_world =
     ([SetupUnhandledRejectionHandler, LoadSettings, MigrateDeprecatedSettings,
       CleanupCheckpoints, RandomUUID, ParseArguments, ConsolePatcherPatch, RegisterCleanup,
       DnsSetDefaultResultOrder ''ipv4first'', LoadCustomThemes, LoadSandboxConfig,
       LoadPartialCliConfig, ValidateAuthMethod ''qwen-oauth'',
       ConsoleError auth_error_message], Exit 1)"
  by (simp add: main_with_protocol_def auth_failure_world_run) (simp add: world_defs)

text \<open>The sandbox run with an accepted and with a rejected method.\<close>

theorem auth_precedes_sandbox_witness:
  "ValidateAuthMethod ''qwen-oauth'' \<in>
     set (fst (main returns_at_once app_returns_at_once sandbox_world)) \<and>
   last (fst (main returns_at_once app_returns_at_once sandbox_world)) =
     StartSandbox [] [''node'', ''qwen''] \<and>
   snd (main returns_at_once app_returns_at_once auth_failure_world) = Exit 1 \<and>
   last (fst (main returns_at_once app_returns_at_once auth_failure_world)) =
     ConsoleError auth_error_message"
proof -
  have l: "LoadSandboxConfig \<in> set (fst (main returns_at_once app_returns_at_once sandbox_world))"
    by (simp add: sandbox_world_run)
  have l': "LoadSandboxConfig \<in>
      set (fst (main returns_at_once app_returns_at_once auth_failure_world))"
    by (simp add: auth_failure_world_run)
  from l auth_precedes_sandbox [where w = sandbox_world and relaunch = returns_at_once
      and relaunchApp = app_returns_at_once and t = "''qwen-oauth''"
      and cfg = "\<lparr> kind = ''docker'', image = ''sandbox'' \<rparr>"]
  have "ValidateAuthMethod ''qwen-oauth'' \<in>
     set (fst (main returns_at_once app_returns_at_once sandbox_world)) \<and>
   last (fst (main returns_at_once app_returns_at_once sandbox_world)) =
     StartSandbox [] [''node'', ''qwen'']"
    by (simp add: sandbox_world_facts)
  moreover from l' auth_precedes_sandbox [where w = auth_failure_world
      and relaunch = returns_at_once and relaunchApp = app_returns_at_once
      and t = "''qwen-oauth''" and cfg = "\<lparr> kind = ''docker'', image = ''sandbox'' \<rparr>"]
  have "snd (main returns_at_once app_returns_at_once auth_failure_world) = Exit 1 \<and>
   last (fst (main returns_at_once app_returns_at_once auth_failure_world)) =
     ConsoleError auth_error_message"
    by (simp add: world_defs)
  ultimately show ?thesis by blast
qed

text \<open>The piped prompt is read and merged; the run with no input at all exits with 1.\<close>

theorem non_interactive_input_witness:
  "ReadStdin \<in> set (fst (main returns_at_once app_returns_at_once piped_prompt_world)) \<and>
   merged_input piped_prompt_world = ''ctx'' @ [LF, LF] @ ''hi'' \<and>
   snd (main returns_at_once app_returns_at_once no_input_world) = Exit 1 \<and>
   last (fst (main returns_at_once app_returns_at_once no_input_world)) =
     ConsoleError no_input_message"
proof -
  have c: "ConfigInitialize \<in>
      set (fst (main returns_at_once app_returns_at_once piped_prompt_world))"
    by (simp add: piped_prompt_world_run)
  have c': "ConfigInitialize \<in>
      set (fst (main returns_at_once app_returns_at_once no_input_world))"
    by (simp add: no_input_world_run)
  have piped: "\<not> stdin_isTTY piped_prompt_world" "readStdin piped_prompt_world = ''ctx''"
    "getQuestion piped_prompt_world = ''hi''"
    by (simp_all add: world_defs)
  have i': "merged_input no_input_world = []"
    by (simp add: merged_input_def world_defs)
  note p = non_interactive_input [where w = piped_prompt_world and relaunch = returns_at_once
      and relaunchApp = app_returns_at_once, THEN mp, OF c]
  note n = non_interactive_input [where w = no_input_world and relaunch = returns_at_once
      and relaunchApp = app_returns_at_once, THEN mp, OF c']
  from p piped(1)
  have "ReadStdin \<in> set (fst (main returns_at_once app_returns_at_once piped_prompt_world))"
    by blast
  moreover from p have "merged_input piped_prompt_world =
     (if \<not> stdin_isTTY piped_prompt_world \<and> readStdin piped_prompt_world \<noteq> []
      then readStdin piped_prompt_world @ [LF, LF] @ getQuestion piped_prompt_world
      else getQuestion piped_prompt_world)"
    by blast
  then have "merged_input piped_prompt_world = ''ctx'' @ [LF, LF] @ ''hi''"
    by (simp add: piped)
  moreover from n i'
  have "snd (main returns_at_once app_returns_at_once no_input_world) = Exit 1 \<and>
   last (fst (main returns_at_once app_returns_at_once no_input_world)) =
     ConsoleError no_input_message"
    by blast
  ultimately show ?thesis by blast
qed

text \<open>
  C7 as stated fails: with the prompt \<^verbatim>\<open>hi\<close> supplied on the command line and \<^verbatim>\<open>ctx\<close>
  piped in, standard input is read all the same and prepended to the prompt.
\<close>

theorem stdin_read_with_prompt_supplied:
  "getQuestion piped_prompt_world = ''hi'' \<and>
   ReadStdin \<in> set (fst (main_with_protocol 42 plain_child piped_prompt_world)) \<and>
   RunNonInteractive (''ctx'' @ [LF, LF] @ ''hi'') \<in>
     set (fst (main_with_protocol 42 plain_child piped_prompt_world))"
  by (simp add: main_with_protocol_def piped_prompt_world_run) (simp add: world_defs)

text \<open>The interactive example run.\<close>

theorem kitty_detection_order_witness:
  "DetectAndEnableKittyProtocol \<in>
     set [SetupUnhandledRejectionHandler, LoadSettings, MigrateDeprecatedSettings,
       CleanupCheckpoints, RandomUUID, ParseArguments, ConsolePatcherPatch, RegisterCleanup,
       DnsSetDefaultResultOrder ''ipv4first'', LoadCustomThemes, LoadExtensions, LoadCliConfig,
       SetRawMode, ProcessOn ''SIGTERM'', ProcessOn ''SIGINT'', DetectAndEnableKittyProtocol,
       SetMaxSizedBoxDebugging, InitializeApp, GetStartupWarnings, GetUserStartupWarnings,
       KittyProtocolDetectionComplete] \<and>
   fst (main returns_at_once app_returns_at_once interactive_world) =
     [SetupUnhandledRejectionHandler, LoadSettings, MigrateDeprecatedSettings,
       CleanupCheckpoints, RandomUUID, ParseArguments, ConsolePatcherPatch, RegisterCleanup,
       DnsSetDefaultResultOrder ''ipv4first'', LoadCustomThemes, LoadExtensions, LoadCliConfig,
       SetRawMode, ProcessOn ''SIGTERM'', ProcessOn ''SIGINT'', DetectAndEnableKittyProtocol,
       SetMaxSizedBoxDebugging, InitializeApp, GetStartupWarnings, GetUserStartupWarnings,
       KittyProtocolDetectionComplete] @ [StartInteractiveUI]"
proof -
  have h: "isInteractive interactive_world \<and> stdin_isTTY interactive_world \<and>
      \<not> stdin_isRaw interactive_world"
    by (simp add: world_defs)
  have tr: "fst (main returns_at_once app_returns_at_once interactive_world) =
     [SetupUnhandledRejectionHandler, LoadSettings, MigrateDeprecatedSettings,
       CleanupCheckpoints, RandomUUID, ParseArguments, ConsolePatcherPatch, RegisterCleanup,
       DnsSetDefaultResultOrder ''ipv4first'', LoadCustomThemes, LoadExtensions, LoadCliConfig,
       SetRawMode, ProcessOn ''SIGTERM'', ProcessOn ''SIGINT'', DetectAndEnableKittyProtocol,
       SetMaxSizedBoxDebugging, InitializeApp, GetStartupWarnings, GetUserStartupWarnings,
       KittyProtocolDetectionComplete] @ StartInteractiveUI # []"
    by (simp add: interactive_world_run)
  from kitty_detection_order [where w = interactive_world and relaunch = returns_at_once
      and relaunchApp = app_returns_at_once] h
  have "\<forall>pre e post. fst (main returns_at_once app_returns_at_once interactive_world) =
       pre @ e # post \<and>
       (e = InitializeApp \<or> e = ConfigInitialize \<or> e = GetStartupWarnings \<or>
        e = GetUserStartupWarnings \<or> e = KittyProtocolDetectionComplete \<or>
        e = StartInteractiveUI) \<longrightarrow>
       DetectAndEnableKittyProtocol \<in> set pre"
    by blast
  with tr have "DetectAndEnableKittyProtocol \<in>
     set [SetupUnhandledRejectionHandler, LoadSettings, MigrateDeprecatedSettings,
       CleanupCheckpoints, RandomUUID, ParseArguments, ConsolePatcherPatch, RegisterCleanup,
       DnsSetDefaultResultOrder ''ipv4first'', LoadCustomThemes, LoadExtensions, LoadCliConfig,
       SetRawMode, ProcessOn ''SIGTERM'', ProcessOn ''SIGINT'', DetectAndEnableKittyProtocol,
       SetMaxSizedBoxDebugging, InitializeApp, GetStartupWarnings, GetUserStartupWarnings,
       KittyProtocolDetectionComplete]"
    by blast
  with tr show ?thesis by simp
qed

text \<open>
  On the example machine the calculator would ask for 8192 megabytes; with the setting absent
  the flag list handed to the child is empty all the same.
\<close>

theorem memoryArgs_only_when_enabled_witness:
  "snd (getNodeMemoryArgs (cli_isDebugMode example_world) (os_totalmem example_world)
          (v8_heap_size_limit example_world) (env_GEMINI_CLI_NO_RELAUNCH example_world)) =
     [''--max-old-space-size=8192''] \<and>
   memoryArgs example_world = [] \<and>
   memoryArgs (example_world \<lparr> autoConfigureMemory := Some True \<rparr>) =
     [''--max-old-space-size=8192''] \<and>
   RelaunchAppInChildProcess [] [] \<in>
     set (fst (main_with_protocol 42 plain_child example_world))"
proof -
  have flag: "snd (getNodeMemoryArgs (cli_isDebugMode example_world) (os_totalmem example_world)
          (v8_heap_size_limit example_world) (env_GEMINI_CLI_NO_RELAUNCH example_world)) =
     [''--max-old-space-size=8192'']"
    by (simp add: example_world_def getNodeMemoryArgs_def Let_def target_div current_div
        show_int_def show_nat_8192)
  then have on: "memoryArgs (example_world \<lparr> autoConfigureMemory := Some True \<rparr>) =
     [''--max-old-space-size=8192'']"
    by (simp add: memoryArgs_def example_world_def)
  have plain: "protocol_result (relaunchAppInChildProcess 42 plain_child [] []) = Exits 0"
    by (simp add: plain_child_protocol protocol_result_def)
  have launched: "RelaunchAppInChildProcess [] [] \<in>
     set (fst (main_with_protocol 42 plain_child example_world))"
    by (simp add: main_with_protocol_def
        example_world_run [where relaunchApp = "\<lambda>nodeArgs scriptArgs.
             protocol_result (relaunchAppInChildProcess 42 plain_child nodeArgs scriptArgs)"
          and status = 0, OF plain])
  from memoryArgs_only_when_enabled [where w = example_world
      and relaunch = "\<lambda>launcher. protocol_result (relaunchOnExitCode 42 launcher)"
      and relaunchApp = "\<lambda>nodeArgs scriptArgs.
             protocol_result (relaunchAppInChildProcess 42 plain_child nodeArgs scriptArgs)"]
  have "memoryArgs example_world = []"
    by (simp add: example_world_facts)
  with flag on launched show ?thesis by blast
qed

end
